theory Spec2Isabelle
  imports Main
begin

section \<open>JavaScript values\<close>

text \<open>
  The values the program handles come out of \<^verbatim>\<open>JSON.parse\<close>, out of the DOM (strings) or out
  of the query-string parser (strings, arrays, objects). They are modelled by the datatype
  \<open>json\<close>; \<^verbatim>\<open>undefined\<close>, which is no JSON value, is \<open>None\<close> of \<open>json option\<close>.

  A number is named by the text that the language's number-to-string conversion gives it
  (\<open>JNum ''603''\<close>, \<open>JNum ''0''\<close>, \<open>JNum ''1.5''\<close>); the program only tests numbers for
  truthiness and converts them to strings; the numbers that are not finite are
  \<open>JNum ''Infinity''\<close>, \<open>JNum ''-Infinity''\<close> and \<open>JNum ''NaN''\<close>. A string is a list of code
  units below 256. An object is the list of its own properties in the order the engine
  enumerates them, one pair for each name; nothing in it can be called.
\<close>

datatype json =
    JNull
  | JBool bool
  | JNum string
  | JStr string
  | JArr "json list"
  | JObj "(string \<times> json) list"

type_synonym js = "json option"

text \<open>What the program can throw. The text of an \<open>Error\<close> is the one the program gives it;
  the messages of the errors raised by the engine and by \<^verbatim>\<open>fetch\<close> are the engine's.\<close>

datatype exn = Error string | TypeError | SyntaxError | NetworkError

fun truthy :: "js \<Rightarrow> bool" where
  "truthy None = False"
| "truthy (Some JNull) = False"
| "truthy (Some (JBool b)) = b"
| "truthy (Some (JNum n)) = (n \<noteq> ''0'' \<and> n \<noteq> ''NaN'')"
| "truthy (Some (JStr s)) = (s \<noteq> [])"
| "truthy (Some (JArr xs)) = True"
| "truthy (Some (JObj kvs)) = True"

text \<open>\<^verbatim>\<open>a || b\<close>\<close>

definition or_else :: "js \<Rightarrow> js \<Rightarrow> js" where
  "or_else a b = (if truthy a then a else b)"

text \<open>\<^verbatim>\<open>xs.join(sep)\<close> on the strings of the elements.\<close>

fun join :: "string \<Rightarrow> string list \<Rightarrow> string" where
  "join sep [] = []"
| "join sep [s] = s"
| "join sep (s # t # ss) = s @ sep @ join sep (t # ss)"

text \<open>\<^verbatim>\<open>String(v)\<close>, also the conversion of a template literal and \<^verbatim>\<open>v.toString()\<close>. An array
  joins the strings of its elements with a comma, \<^verbatim>\<open>null\<close> elements giving the empty string.
  An object is converted by its \<^verbatim>\<open>toString\<close>: the inherited one gives \<^verbatim>\<open>[object Object]\<close>; an own
  property of that name hides it and cannot be called, and the conversion throws.\<close>

fun to_string :: "json \<Rightarrow> exn + string"
  and to_strings :: "json list \<Rightarrow> exn + string list" where
  "to_string JNull = Inr ''null''"
| "to_string (JBool b) = Inr (if b then ''true'' else ''false'')"
| "to_string (JNum n) = Inr n"
| "to_string (JStr s) = Inr s"
| "to_string (JArr xs) =
     (case to_strings xs of Inl e \<Rightarrow> Inl e | Inr ss \<Rightarrow> Inr (join '','' ss))"
| "to_string (JObj kvs) =
     (if map_of kvs ''toString'' \<noteq> None then Inl TypeError else Inr ''[object Object]'')"
| "to_strings [] = Inr []"
| "to_strings (x # xs) =
     (case (if x = JNull then Inr [] else to_string x) of
        Inl e \<Rightarrow> Inl e
      | Inr s \<Rightarrow> (case to_strings xs of Inl e \<Rightarrow> Inl e | Inr ss \<Rightarrow> Inr (s # ss)))"

definition String_js :: "js \<Rightarrow> exn + string" where
  "String_js v = (case v of None \<Rightarrow> Inr ''undefined'' | Some x \<Rightarrow> to_string x)"

text \<open>\<^verbatim>\<open>v.name\<close> for a name that is no built-in property of strings, arrays, numbers or
  booleans (the program reads \<^verbatim>\<open>length\<close> and the index \<^verbatim>\<open>0\<close> apart, below). Reading a property
  of \<^verbatim>\<open>null\<close> or \<^verbatim>\<open>undefined\<close> throws.\<close>

fun get_prop :: "js \<Rightarrow> string \<Rightarrow> exn + js" where
  "get_prop None k = Inl TypeError"
| "get_prop (Some JNull) k = Inl TypeError"
| "get_prop (Some (JObj kvs)) k = Inr (map_of kvs k)"
| "get_prop (Some v) k = Inr None"

text \<open>\<^verbatim>\<open>v.name\<close> on a value already known not to be \<^verbatim>\<open>null\<close> or \<^verbatim>\<open>undefined\<close>, and the optional
  chaining \<^verbatim>\<open>v?.name\<close>: neither throws.\<close>

definition field :: "js \<Rightarrow> string \<Rightarrow> js" where
  "field v k = (case v of Some (JObj kvs) \<Rightarrow> map_of kvs k | _ \<Rightarrow> None)"

text \<open>The text of a storage entry or of a response body is modelled by what \<^verbatim>\<open>JSON.parse\<close>
  makes of it: \<open>Json v\<close> is a text that parses to \<open>v\<close>, \<open>NotJson s\<close> is the text \<open>s\<close>, which
  does not parse. The empty string is \<open>NotJson []\<close>.\<close>

datatype jtext = Json json | NotJson string

fun JSON_parse :: "jtext \<Rightarrow> exn + json" where
  "JSON_parse (Json v) = Inr v"
| "JSON_parse (NotJson s) = Inl SyntaxError"

text \<open>\<^verbatim>\<open>JSON.stringify\<close> writes a number that is not finite as \<^verbatim>\<open>null\<close> (a text such as \<^verbatim>\<open>1e999\<close>
  parses to one); every other value is written so that it parses back to itself. \<open>written v\<close>
  is the value that the text written for \<open>v\<close> parses to.\<close>

fun written :: "json \<Rightarrow> json" where
  "written JNull = JNull"
| "written (JBool b) = JBool b"
| "written (JNum n) =
     (if n = ''Infinity'' \<or> n = ''-Infinity'' \<or> n = ''NaN'' then JNull else JNum n)"
| "written (JStr s) = JStr s"
| "written (JArr xs) = JArr (map written xs)"
| "written (JObj kvs) = JObj (map (\<lambda>kv. (fst kv, written (snd kv))) kvs)"

definition JSON_stringify :: "json \<Rightarrow> jtext" where
  "JSON_stringify v = Json (written v)"

section \<open>The favorites store (client)\<close>

record favorites =
  movie :: "json list"
  book :: "json list"
  album :: "json list"

definition no_favorites :: favorites where
  "no_favorites = \<lparr>movie = [], book = [], album = []\<rparr>"

text \<open>The state of the page that the store reads and writes: the entry of \<^verbatim>\<open>localStorage\<close>
  under \<^verbatim>\<open>STORAGE_KEY\<close> (\<open>None\<close> when there is none) and the text of the status line.\<close>

record page =
  stored :: "jtext option"
  statusText :: string

text \<open>\<^verbatim>\<open>Array.isArray(v) ? v : []\<close>\<close>

definition array_or_empty :: "js \<Rightarrow> json list" where
  "array_or_empty v = (case v of Some (JArr xs) \<Rightarrow> xs | _ \<Rightarrow> [])"

text \<open>The body of the \<^verbatim>\<open>try\<close> of \<^verbatim>\<open>loadFavorites\<close>.\<close>

definition loadFavorites_try :: "jtext \<Rightarrow> exn + favorites" where
  "loadFavorites_try raw =
     (case JSON_parse raw of
        Inl e \<Rightarrow> Inl e
      | Inr parsed \<Rightarrow>
          (case get_prop (Some parsed) ''movie'' of
             Inl e \<Rightarrow> Inl e
           | Inr m \<Rightarrow>
               (case get_prop (Some parsed) ''book'' of
                  Inl e \<Rightarrow> Inl e
                | Inr b \<Rightarrow>
                    (case get_prop (Some parsed) ''album'' of
                       Inl e \<Rightarrow> Inl e
                     | Inr a \<Rightarrow>
                         Inr \<lparr>movie = array_or_empty m,
                              book = array_or_empty b,
                              album = array_or_empty a\<rparr>))))"

definition loadFavorites :: "jtext option \<Rightarrow> favorites" where
  "loadFavorites raw =
     (case raw of
        None \<Rightarrow> no_favorites
      | Some t \<Rightarrow>
          if t = NotJson [] then no_favorites
          else (case loadFavorites_try t of
                  Inl e \<Rightarrow> no_favorites
                | Inr favs \<Rightarrow> favs))"

definition favorites_json :: "favorites \<Rightarrow> json" where
  "favorites_json favs =
     JObj [(''movie'', JArr (movie favs)), (''book'', JArr (book favs)), (''album'', JArr (album favs))]"

definition saveFavorites :: "favorites \<Rightarrow> page \<Rightarrow> page" where
  "saveFavorites favs p = p\<lparr>stored := Some (JSON_stringify (favorites_json favs))\<rparr>"

definition setStatus :: "string \<Rightarrow> page \<Rightarrow> page" where
  "setStatus msg p = p\<lparr>statusText := msg\<rparr>"

definition mapCategoryToFavType :: "string \<Rightarrow> string" where
  "mapCategoryToFavType category =
     (if category = ''movies'' then ''movie''
      else if category = ''books'' then ''book''
      else ''album'')"

text \<open>\<^verbatim>\<open>favs[key]\<close>: the three own properties of the object that \<^verbatim>\<open>loadFavorites\<close> builds. Any
  other name gives \<^verbatim>\<open>undefined\<close> or a property of \<^verbatim>\<open>Object.prototype\<close>, on which the array
  methods called next are missing, so that the call throws.\<close>

definition favs_get :: "favorites \<Rightarrow> string \<Rightarrow> json list option" where
  "favs_get favs key =
     (if key = ''movie'' then Some (movie favs)
      else if key = ''book'' then Some (book favs)
      else if key = ''album'' then Some (album favs)
      else None)"

definition favs_set :: "favorites \<Rightarrow> string \<Rightarrow> json list \<Rightarrow> favorites" where
  "favs_set favs key xs =
     (if key = ''movie'' then favs\<lparr>movie := xs\<rparr>
      else if key = ''book'' then favs\<lparr>book := xs\<rparr>
      else if key = ''album'' then favs\<lparr>album := xs\<rparr>
      else favs)"

text \<open>The item that the click handler of the result list passes to \<^verbatim>\<open>addFavorite\<close>: the five
  fields are strings read from the card (\<^verbatim>\<open>dataset\<close>, \<^verbatim>\<open>textContent\<close>, \<^verbatim>\<open>src\<close>).\<close>

record item =
  id' :: string
  type' :: string
  title :: string
  subtitle :: string
  image :: string

definition item_json :: "item \<Rightarrow> json" where
  "item_json i =
     JObj [(''id'', JStr (id' i)), (''type'', JStr (type' i)), (''title'', JStr (title i)),
           (''subtitle'', JStr (subtitle i)), (''image'', JStr (image i))]"

text \<open>\<^verbatim>\<open>String(x.id)\<close> of a stored entry: reading \<^verbatim>\<open>x.id\<close> of a \<^verbatim>\<open>null\<close> entry throws, and so does
  the conversion of an id that has no string.\<close>

definition id_of :: "json \<Rightarrow> exn + string" where
  "id_of x = (case get_prop (Some x) ''id'' of Inl e \<Rightarrow> Inl e | Inr v \<Rightarrow> String_js v)"

text \<open>\<^verbatim>\<open>xs.some((x) => String(x.id) === String(id))\<close>: left to right, stopping at the first
  match or the first exception.\<close>

fun some_id :: "json list \<Rightarrow> string \<Rightarrow> exn + bool" where
  "some_id [] i = Inr False"
| "some_id (x # xs) i =
     (case id_of x of
        Inl e \<Rightarrow> Inl e
      | Inr s \<Rightarrow> if s = i then Inr True else some_id xs i)"

text \<open>\<^verbatim>\<open>xs.filter((x) => String(x.id) !== String(id))\<close>\<close>

fun filter_id :: "json list \<Rightarrow> string \<Rightarrow> exn + json list" where
  "filter_id [] i = Inr []"
| "filter_id (x # xs) i =
     (case id_of x of
        Inl e \<Rightarrow> Inl e
      | Inr s \<Rightarrow>
          (case filter_id xs i of
             Inl e \<Rightarrow> Inl e
           | Inr ys \<Rightarrow> if s \<noteq> i then Inr (x # ys) else Inr ys))"

text \<open>A function of the page returns the page it leaves and the exception it ends with, if
  any.\<close>

type_synonym outcome = "page \<times> exn option"

text \<open>The three status lines of \<^verbatim>\<open>addFavorite\<close>. The first reports what the specification
  calls a \<open>DuplicateError\<close>, the second a \<open>CapacityError\<close>, the third a successful add.\<close>

definition duplicate_msg :: string where
  "duplicate_msg = ''Already in favorites.''"

definition capacity_msg :: "string \<Rightarrow> string" where
  "capacity_msg key = ''You already have 5 '' @ key @ ''s. Remove one first.''"

definition added_msg :: "string \<Rightarrow> string" where
  "added_msg key = ''Added to '' @ key @ '' favorites.''"

text \<open>The item and the id that the click handlers pass hold strings, and \<^verbatim>\<open>String\<close> of a string
  is that string.\<close>

definition addFavorite :: "item \<Rightarrow> page \<Rightarrow> outcome" where
  "addFavorite i p =
     (let favs = loadFavorites (stored p); key = type' i in
      case favs_get favs key of
        None \<Rightarrow> (p, Some TypeError)
      | Some xs \<Rightarrow>
          (case some_id xs (id' i) of
             Inl e \<Rightarrow> (p, Some e)
           | Inr True \<Rightarrow> (setStatus duplicate_msg p, None)
           | Inr False \<Rightarrow>
               if length xs \<ge> 5
               then (setStatus (capacity_msg key) p, None)
               else (setStatus (added_msg key)
                       (saveFavorites (favs_set favs key (xs @ [item_json i])) p), None)))"

text \<open>\<^verbatim>\<open>xs.map(f)\<close> with a callback that may throw: the first exception ends the loop.\<close>

fun map_throwing :: "('a \<Rightarrow> exn + 'b) \<Rightarrow> 'a list \<Rightarrow> exn + 'b list" where
  "map_throwing f [] = Inr []"
| "map_throwing f (x # xs) =
     (case f x of
        Inl e \<Rightarrow> Inl e
      | Inr y \<Rightarrow> (case map_throwing f xs of Inl e \<Rightarrow> Inl e | Inr ys \<Rightarrow> Inr (y # ys)))"

text \<open>\<^verbatim>\<open>escapeHtml(str)\<close>: \<^verbatim>\<open>String(str)\<close> with the five characters replaced.\<close>

definition escape_char :: "char \<Rightarrow> string" where
  "escape_char c =
     (if c = CHR ''&'' then ''&amp;''
      else if c = CHR ''<'' then ''&lt;''
      else if c = CHR ''>'' then ''&gt;''
      else if c = CHR 0x22 then ''&quot;''
      else if c = CHR 0x27 then ''&#039;''
      else [c])"

definition escapeHtml :: "js \<Rightarrow> exn + string" where
  "escapeHtml v =
     (case String_js v of Inl e \<Rightarrow> Inl e | Inr s \<Rightarrow> Inr (concat (map escape_char s)))"

text \<open>A card of the profile view, \<^verbatim>\<open>cardTemplate(item, {showAdd: false, showRemove: true})\<close>:
  the texts that the template puts into the markup, in the order it computes them. The
  address of the image is there when \<^verbatim>\<open>item.image\<close> is truthy. Reading \<^verbatim>\<open>item.image\<close> of a
  \<^verbatim>\<open>null\<close> entry throws, and so does each conversion of a value that has no string.\<close>

record card =
  card_img :: "string option"
  card_title :: string
  card_sub :: string
  card_type :: string
  card_id :: string

definition cardTemplate :: "json \<Rightarrow> exn + card" where
  "cardTemplate x =
     (case get_prop (Some x) ''image'' of
        Inl e \<Rightarrow> Inl e
      | Inr im \<Rightarrow>
          (case (if truthy im
                 then (case String_js im of Inl e \<Rightarrow> Inl e | Inr s \<Rightarrow> Inr (Some s))
                 else Inr None) of
             Inl e \<Rightarrow> Inl e
           | Inr img \<Rightarrow>
               (case escapeHtml (field (Some x) ''title'') of
                  Inl e \<Rightarrow> Inl e
                | Inr t \<Rightarrow>
                    (case escapeHtml (or_else (field (Some x) ''subtitle'') (Some (JStr []))) of
                       Inl e \<Rightarrow> Inl e
                     | Inr s \<Rightarrow>
                         (case String_js (field (Some x) ''type'') of
                            Inl e \<Rightarrow> Inl e
                          | Inr ty \<Rightarrow>
                              (case String_js (field (Some x) ''id'') of
                                 Inl e \<Rightarrow> Inl e
                               | Inr i \<Rightarrow>
                                   Inr \<lparr>card_img = img, card_title = t, card_sub = s,
                                        card_type = ty, card_id = i\<rparr>))))))"

text \<open>\<^verbatim>\<open>renderFavorites\<close> makes the cards of the three lists, movies first, and writes them
  into the page; the markup it writes is not part of the state modelled here, the
  exception that ends it is.\<close>

definition renderFavorites :: "page \<Rightarrow> outcome" where
  "renderFavorites p =
     (let favs = loadFavorites (stored p) in
      case map_throwing cardTemplate (movie favs) of
        Inl e \<Rightarrow> (p, Some e)
      | Inr ms \<Rightarrow>
          (case map_throwing cardTemplate (book favs) of
             Inl e \<Rightarrow> (p, Some e)
           | Inr bs \<Rightarrow>
               (case map_throwing cardTemplate (album favs) of
                  Inl e \<Rightarrow> (p, Some e)
                | Inr as \<Rightarrow> (p, None))))"

definition removeFavorite :: "string \<Rightarrow> string \<Rightarrow> page \<Rightarrow> outcome" where
  "removeFavorite ty i p =
     (let favs = loadFavorites (stored p) in
      case favs_get favs ty of
        None \<Rightarrow> (p, Some TypeError)
      | Some xs \<Rightarrow>
          (case filter_id xs i of
             Inl e \<Rightarrow> (p, Some e)
           | Inr ys \<Rightarrow> renderFavorites (saveFavorites (favs_set favs ty ys) p)))"

text \<open>The click handler of the clear button.\<close>

definition clearFavorites :: "page \<Rightarrow> outcome" where
  "clearFavorites p = renderFavorites (p\<lparr>stored := None\<rparr>)"

text \<open>The page moves by the three handlers; an exception ends the handler and leaves the
  page as it is at that point.\<close>

datatype action = Add item | Remove string string | Clear

fun act :: "action \<Rightarrow> page \<Rightarrow> page" where
  "act (Add i) p = fst (addFavorite i p)"
| "act (Remove ty i) p = fst (removeFavorite ty i p)"
| "act Clear p = fst (clearFavorites p)"

fun run :: "action list \<Rightarrow> page \<Rightarrow> page" where
  "run [] p = p"
| "run (a # as) p = run as (act a p)"

text \<open>An entry that the store can keep and the page can show: \<^verbatim>\<open>JSON.stringify\<close> writes it
  so that it reads back as it is, and a card can be made of it (it is not \<^verbatim>\<open>null\<close>, and its
  image, title, subtitle, type and id have strings).\<close>

definition is_item :: "json \<Rightarrow> bool" where
  "is_item x = (written x = x \<and> (case cardTemplate x of Inl e \<Rightarrow> False | Inr c \<Rightarrow> True))"

definition all_items :: "favorites \<Rightarrow> bool" where
  "all_items favs =
     (list_all is_item (movie favs) \<and> list_all is_item (book favs) \<and> list_all is_item (album favs))"

text \<open>Every entry of the collection is written back as it is.\<close>

definition kept :: "favorites \<Rightarrow> bool" where
  "kept favs =
     (map written (movie favs) = movie favs \<and> map written (book favs) = book favs
      \<and> map written (album favs) = album favs)"

text \<open>No category holds more than five entries.\<close>

definition at_most_five :: "favorites \<Rightarrow> bool" where
  "at_most_five favs =
     (length (movie favs) \<le> 5 \<and> length (book favs) \<le> 5 \<and> length (album favs) \<le> 5)"

definition within_capacity :: "page \<Rightarrow> bool" where
  "within_capacity p = at_most_five (loadFavorites (stored p))"

text \<open>Pages to run the store on: a favorite read from a card of the movie list, and the
  page left by saving five of them.\<close>

definition movie_fav :: "string \<Rightarrow> item" where
  "movie_fav i = \<lparr>id' = i, type' = ''movie'', title = ''Heat'', subtitle = ''(1995)'', image = []\<rparr>"

definition fresh_page :: page where
  "fresh_page = \<lparr>stored = None, statusText = []\<rparr>"

definition five_movies :: page where
  "five_movies =
     saveFavorites
       \<lparr>movie = map (\<lambda>i. item_json (movie_fav i)) [''1'', ''2'', ''3'', ''4'', ''5''],
        book = [], album = []\<rparr>
       fresh_page"

text \<open>Two stored texts that the store did not write: \<^verbatim>\<open>{"movie":[{"id":1e999}]}\<close>, whose id
  parses to a number that is not finite, and
  \<^verbatim>\<open>{"movie":[{"id":{"toString":1}},{"id":"3"}]}\<close>, whose first id has no string.\<close>

definition infinite_id_page :: page where
  "infinite_id_page =
     \<lparr>stored = Some (Json (JObj [(''movie'', JArr [JObj [(''id'', JNum ''Infinity'')]])])),
      statusText = []\<rparr>"

definition unprintable_id_page :: page where
  "unprintable_id_page =
     \<lparr>stored = Some (Json (JObj [(''movie'',
          JArr [JObj [(''id'', JObj [(''toString'', JNum ''1'')])], JObj [(''id'', JStr ''3'')]])])),
      statusText = []\<rparr>"

section \<open>The search endpoints (server)\<close>

subsection \<open>More of the language\<close>

text \<open>\<^verbatim>\<open>s.trim()\<close>: white space and line terminators among the code units below 256.\<close>

definition is_space :: "char \<Rightarrow> bool" where
  "is_space c = (c \<in> set [CHR 0x09, CHR 0x0A, CHR 0x0B, CHR 0x0C, CHR 0x0D, CHR 0x20, CHR 0xA0])"

definition trim :: "string \<Rightarrow> string" where
  "trim s = rev (dropWhile is_space (rev (dropWhile is_space s)))"

text \<open>\<^verbatim>\<open>v.slice(0, n)\<close> on a truthy value: strings and arrays have the method, on anything else
  the call throws.\<close>

fun slice0 :: "nat \<Rightarrow> js \<Rightarrow> exn + json" where
  "slice0 n (Some (JStr s)) = Inr (JStr (take n s))"
| "slice0 n (Some (JArr xs)) = Inr (JArr (take n xs))"
| "slice0 n v = Inl TypeError"

text \<open>\<^verbatim>\<open>v?.[0]\<close>\<close>

fun index0 :: "js \<Rightarrow> js" where
  "index0 (Some (JArr xs)) = (case xs of [] \<Rightarrow> None | x # _ \<Rightarrow> Some x)"
| "index0 (Some (JStr s)) = (case s of [] \<Rightarrow> None | c # _ \<Rightarrow> Some (JStr [c]))"
| "index0 (Some (JObj kvs)) = map_of kvs ''0''"
| "index0 v = None"

text \<open>\<^verbatim>\<open>(v || []).slice(0, 20).map(f)\<close>: a truthy \<open>v\<close> that is no array lacks \<^verbatim>\<open>slice\<close> or, a
  string, \<^verbatim>\<open>map\<close>.\<close>

definition first20_map :: "(json \<Rightarrow> exn + 'b) \<Rightarrow> js \<Rightarrow> exn + 'b list" where
  "first20_map f v =
     (case or_else v (Some (JArr [])) of
        Some (JArr xs) \<Rightarrow> map_throwing f (take 20 xs)
      | _ \<Rightarrow> Inl TypeError)"

subsection \<open>Environment, requests, responses\<close>

text \<open>\<^verbatim>\<open>process.env\<close>\<close>

type_synonym env = "string \<Rightarrow> string option"

text \<open>\<^verbatim>\<open>!process.env[name]\<close>: the variable is not there, or is the empty string.\<close>

definition unset :: "env \<Rightarrow> string \<Rightarrow> bool" where
  "unset env name = (case env name of None \<Rightarrow> True | Some v \<Rightarrow> v = [])"

definition requireEnv :: "env \<Rightarrow> string \<Rightarrow> exn + unit" where
  "requireEnv env name =
     (if unset env name then Inl (Error (''Missing env var: '' @ name)) else Inr ())"

text \<open>A value of the environment put into a URL or a header: \<^verbatim>\<open>undefined\<close> is written as its
  name.\<close>

definition env_text :: "env \<Rightarrow> string \<Rightarrow> string" where
  "env_text env name = (case env name of None \<Rightarrow> ''undefined'' | Some v \<Rightarrow> v)"

text \<open>A call of \<^verbatim>\<open>fetch\<close>: the URL, its search parameters in the order they are set, and the
  headers. The transport answers with a status and a body, or the call is rejected.\<close>

record http_request =
  url :: string
  params :: "(string \<times> string) list"
  headers :: "(string \<times> string) list"

datatype fetch_result = Rejected | Responded nat jtext

type_synonym transport = "http_request \<Rightarrow> fetch_result"

text \<open>\<^verbatim>\<open>r.ok\<close>\<close>

definition ok :: "nat \<Rightarrow> bool" where
  "ok st = (200 \<le> st \<and> st \<le> 299)"

text \<open>An object literal of the program: its properties in order, \<open>None\<close> for a property whose
  value is \<^verbatim>\<open>undefined\<close> (which \<^verbatim>\<open>res.json\<close> leaves out of the text it sends).\<close>

type_synonym obj = "(string \<times> js) list"

text \<open>The bodies the handlers send:
  \<^verbatim>\<open>{error: "..."}\<close>, \<^verbatim>\<open>{error: e.message}\<close>, \<^verbatim>\<open>{items}\<close> and
  \<^verbatim>\<open>{error: "Discogs request failed", status: r.status, details: data}\<close>.\<close>

datatype body =
    ErrorBody string
  | ThrownBody exn
  | ItemsBody "obj list"
  | DiscogsFailed nat json

record response =
  status :: nat
  body :: body

text \<open>What a handler does: the calls of \<^verbatim>\<open>fetch\<close> it makes, in order, and the response it
  sends.\<close>

record handled =
  calls :: "http_request list"
  response :: response

definition caught :: "http_request list \<Rightarrow> exn \<Rightarrow> handled" where
  "caught cs e = \<lparr>calls = cs, response = \<lparr>status = 500, body = ThrownBody e\<rparr>\<rparr>"

definition missing_q :: handled where
  "missing_q = \<lparr>calls = [], response = \<lparr>status = 400, body = ErrorBody ''Missing query param q''\<rparr>\<rparr>"

text \<open>\<^verbatim>\<open>(req.query.q || "").toString().trim()\<close>\<close>

definition query_q :: "js \<Rightarrow> exn + string" where
  "query_q q =
     (case String_js (or_else q (Some (JStr []))) of
        Inl e \<Rightarrow> Inl e
      | Inr s \<Rightarrow> Inr (trim s))"

subsection \<open>Movies\<close>

definition movie_item :: "json \<Rightarrow> exn + obj" where
  "movie_item m =
     (case get_prop (Some m) ''id'' of
        Inl e \<Rightarrow> Inl e
      | Inr i \<Rightarrow>
          (case (if truthy (field (Some m) ''release_date'')
                 then (case slice0 4 (field (Some m) ''release_date'') of
                         Inl e \<Rightarrow> Inl e
                       | Inr y \<Rightarrow>
                           (case to_string y of
                              Inl e \<Rightarrow> Inl e
                            | Inr s \<Rightarrow> Inr (''('' @ s @ '')'')))
                 else Inr []) of
             Inl e \<Rightarrow> Inl e
           | Inr sub \<Rightarrow>
               (case (if truthy (field (Some m) ''poster_path'')
                      then (case String_js (field (Some m) ''poster_path'') of
                              Inl e \<Rightarrow> Inl e
                            | Inr s \<Rightarrow> Inr (''https://image.tmdb.org/t/p/w342'' @ s))
                      else Inr []) of
                  Inl e \<Rightarrow> Inl e
                | Inr img \<Rightarrow>
                    Inr [(''id'', i),
                         (''type'', Some (JStr ''movie'')),
                         (''title'', field (Some m) ''title''),
                         (''subtitle'', Some (JStr sub)),
                         (''image'', Some (JStr img)),
                         (''raw'', Some m)])))"

definition movies_request :: "env \<Rightarrow> string \<Rightarrow> http_request" where
  "movies_request env q =
     \<lparr>url = ''https://api.themoviedb.org/3/search/movie'',
      params = [(''query'', q), (''include_adult'', ''false''), (''language'', ''en-US''),
                (''page'', ''1''), (''api_key'', env_text env ''TMDB_API_KEY'')],
      headers = []\<rparr>"

definition search_movies :: "env \<Rightarrow> transport \<Rightarrow> js \<Rightarrow> handled" where
  "search_movies env fetch rawq =
     (case requireEnv env ''TMDB_API_KEY'' of
        Inl e \<Rightarrow> caught [] e
      | Inr _ \<Rightarrow>
          (case query_q rawq of
             Inl e \<Rightarrow> caught [] e
           | Inr q \<Rightarrow>
               if q = [] then missing_q
               else
                 (let req = movies_request env q in
                  case fetch req of
                    Rejected \<Rightarrow> caught [req] NetworkError
                  | Responded st txt \<Rightarrow>
                      (case JSON_parse txt of
                         Inl e \<Rightarrow> caught [req] e
                       | Inr data \<Rightarrow>
                           (case get_prop (Some data) ''results'' of
                              Inl e \<Rightarrow> caught [req] e
                            | Inr rs \<Rightarrow>
                                (case first20_map movie_item rs of
                                   Inl e \<Rightarrow> caught [req] e
                                 | Inr items \<Rightarrow>
                                     \<lparr>calls = [req],
                                      response = \<lparr>status = 200, body = ItemsBody items\<rparr>\<rparr>))))))"

subsection \<open>Books\<close>

text \<open>\<^verbatim>\<open>info.authors?.length ? info.authors.join(", ") : ""\<close>: an array has both, a string has a
  length and no \<^verbatim>\<open>join\<close>, an object has the length it was given and nothing to call.\<close>

fun authors_subtitle :: "js \<Rightarrow> exn + string" where
  "authors_subtitle (Some (JArr xs)) =
     (if xs \<noteq> []
      then (case to_strings xs of Inl e \<Rightarrow> Inl e | Inr ss \<Rightarrow> Inr (join '', '' ss))
      else Inr [])"
| "authors_subtitle (Some (JStr s)) = (if s \<noteq> [] then Inl TypeError else Inr [])"
| "authors_subtitle (Some (JObj kvs)) =
     (if truthy (map_of kvs ''length'') then Inl TypeError else Inr [])"
| "authors_subtitle v = Inr []"

definition book_item :: "json \<Rightarrow> exn + obj" where
  "book_item b =
     (case get_prop (Some b) ''volumeInfo'' of
        Inl e \<Rightarrow> Inl e
      | Inr vi \<Rightarrow>
          (let info = or_else vi (Some (JObj []));
               thumb = or_else (field (field info ''imageLinks'') ''thumbnail'')
                         (or_else (field (field info ''imageLinks'') ''smallThumbnail'')
                            (Some (JStr [])))
           in case authors_subtitle (field info ''authors'') of
                Inl e \<Rightarrow> Inl e
              | Inr sub \<Rightarrow>
                  Inr [(''id'', field (Some b) ''id''),
                       (''type'', Some (JStr ''book'')),
                       (''title'', or_else (field info ''title'') (Some (JStr ''Untitled''))),
                       (''subtitle'', Some (JStr sub)),
                       (''image'', thumb),
                       (''raw'', Some b)]))"

definition books_request :: "env \<Rightarrow> string \<Rightarrow> http_request" where
  "books_request env q =
     \<lparr>url = ''https://www.googleapis.com/books/v1/volumes'',
      params = [(''q'', q), (''maxResults'', ''20'')]
               @ (if unset env ''GOOGLE_BOOKS_API_KEY'' then []
                  else [(''key'', env_text env ''GOOGLE_BOOKS_API_KEY'')]),
      headers = []\<rparr>"

definition search_books :: "env \<Rightarrow> transport \<Rightarrow> js \<Rightarrow> handled" where
  "search_books env fetch rawq =
     (case query_q rawq of
        Inl e \<Rightarrow> caught [] e
      | Inr q \<Rightarrow>
          if q = [] then missing_q
          else
            (let req = books_request env q in
             case fetch req of
               Rejected \<Rightarrow> caught [req] NetworkError
             | Responded st txt \<Rightarrow>
                 (case JSON_parse txt of
                    Inl e \<Rightarrow> caught [req] e
                  | Inr data \<Rightarrow>
                      (case get_prop (Some data) ''items'' of
                         Inl e \<Rightarrow> caught [req] e
                       | Inr rs \<Rightarrow>
                           (case first20_map book_item rs of
                              Inl e \<Rightarrow> caught [req] e
                            | Inr items \<Rightarrow>
                                \<lparr>calls = [req],
                                 response = \<lparr>status = 200, body = ItemsBody items\<rparr>\<rparr>)))))"

subsection \<open>Albums\<close>

definition album_item :: "json \<Rightarrow> exn + obj" where
  "album_item a =
     (case get_prop (Some a) ''id'' of
        Inl e \<Rightarrow> Inl e
      | Inr i \<Rightarrow>
          (case (if truthy (field (Some a) ''year'')
                 then (case String_js (field (Some a) ''year'') of
                         Inl e \<Rightarrow> Inl e
                       | Inr s \<Rightarrow> Inr (Some (JStr (''('' @ s @ '')''))))
                 else Inr (or_else (index0 (field (Some a) ''format'')) (Some (JStr [])))) of
             Inl e \<Rightarrow> Inl e
           | Inr sub \<Rightarrow>
               Inr [(''id'', i),
                    (''type'', Some (JStr ''album'')),
                    (''title'', or_else (field (Some a) ''title'') (Some (JStr ''Untitled''))),
                    (''subtitle'', sub),
                    (''image'', or_else (field (Some a) ''cover_image'') (Some (JStr []))),
                    (''raw'', Some a)]))"

definition albums_request :: "env \<Rightarrow> string \<Rightarrow> http_request" where
  "albums_request env q =
     \<lparr>url = ''https://api.discogs.com/database/search'',
      params = [(''q'', q), (''per_page'', ''20''), (''page'', ''1''),
                (''type'', ''master''), (''format'', ''album'')],
      headers = [(''User-Agent'', env_text env ''DISCOGS_USER_AGENT''),
                 (''Authorization'', ''Discogs token='' @ env_text env ''DISCOGS_TOKEN'')]\<rparr>"

text \<open>\<^verbatim>\<open>try { data = JSON.parse(text); } catch { data = { raw: text }; }\<close>\<close>

fun parse_or_raw :: "jtext \<Rightarrow> json" where
  "parse_or_raw (Json v) = v"
| "parse_or_raw (NotJson s) = JObj [(''raw'', JStr s)]"

definition search_albums :: "env \<Rightarrow> transport \<Rightarrow> js \<Rightarrow> handled" where
  "search_albums env fetch rawq =
     (case requireEnv env ''DISCOGS_TOKEN'' of
        Inl e \<Rightarrow> caught [] e
      | Inr _ \<Rightarrow>
          (case requireEnv env ''DISCOGS_USER_AGENT'' of
             Inl e \<Rightarrow> caught [] e
           | Inr _ \<Rightarrow>
               (case query_q rawq of
                  Inl e \<Rightarrow> caught [] e
                | Inr q \<Rightarrow>
                    if q = [] then missing_q
                    else
                      (let req = albums_request env q in
                       case fetch req of
                         Rejected \<Rightarrow> caught [req] NetworkError
                       | Responded st txt \<Rightarrow>
                           (let data = parse_or_raw txt in
                            if \<not> ok st
                            then \<lparr>calls = [req],
                                  response = \<lparr>status = st, body = DiscogsFailed st data\<rparr>\<rparr>
                            else
                              (case get_prop (Some data) ''results'' of
                                 Inl e \<Rightarrow> caught [req] e
                               | Inr rs \<Rightarrow>
                                   (case first20_map album_item rs of
                                      Inl e \<Rightarrow> caught [req] e
                                    | Inr items \<Rightarrow>
                                        \<lparr>calls = [req],
                                         response = \<lparr>status = 200, body = ItemsBody items\<rparr>\<rparr>)))))))"

subsection \<open>Routing\<close>

datatype adapter = Movie | Book | Album

definition search :: "adapter \<Rightarrow> env \<Rightarrow> transport \<Rightarrow> js \<Rightarrow> handled" where
  "search a env fetch rawq =
     (case a of
        Movie \<Rightarrow> search_movies env fetch rawq
      | Book \<Rightarrow> search_books env fetch rawq
      | Album \<Rightarrow> search_albums env fetch rawq)"

text \<open>The application is created with the routing defaults of the framework: a route path
  matches a request path without regard to the case of letters, and with or without one
  slash at the end.\<close>

definition lower :: "char \<Rightarrow> char" where
  "lower c =
     (case map_of (zip ''ABCDEFGHIJKLMNOPQRSTUVWXYZ'' ''abcdefghijklmnopqrstuvwxyz'') c of
        Some d \<Rightarrow> d
      | None \<Rightarrow> c)"

definition route_matches :: "string \<Rightarrow> string \<Rightarrow> bool" where
  "route_matches route path = (map lower path = route \<or> map lower path = route @ ''/'')"

text \<open>The three search routes, in the order they are registered. \<open>None\<close>: none of them takes
  the request.\<close>

definition search_route :: "string \<Rightarrow> adapter option" where
  "search_route path =
     (if route_matches ''/api/search/movies'' path then Some Movie
      else if route_matches ''/api/search/books'' path then Some Book
      else if route_matches ''/api/search/albums'' path then Some Album
      else None)"

text \<open>The path that \<^verbatim>\<open>runSearch\<close> asks for: \<^verbatim>\<open>API_BASE\<close>, then \<^verbatim>\<open>/search/\<close>, then the category as
  it is. The category is put into the URL unescaped; one made of letters and digits
  (\<open>plain\<close>) is the last segment of the path that the server receives.\<close>

definition alnum :: string where
  "alnum = ''abcdefghijklmnopqrstuvwxyzABCDEFGHIJKLMNOPQRSTUVWXYZ0123456789''"

definition plain :: "string \<Rightarrow> bool" where
  "plain category = list_all (\<lambda>c. c \<in> set alnum) category"

definition search_path :: "string \<Rightarrow> string" where
  "search_path category = ''/api'' @ ''/search/'' @ category"

text \<open>A search request for a category, as the server answers it; \<open>None\<close> when no search
  route takes it.\<close>

definition handle :: "env \<Rightarrow> transport \<Rightarrow> string \<Rightarrow> js \<Rightarrow> handled option" where
  "handle env fetch category rawq =
     (case search_route (search_path category) of
        None \<Rightarrow> None
      | Some a \<Rightarrow> Some (search a env fetch rawq))"

subsection \<open>Environments and upstream answers to run the handlers on\<close>

definition no_env :: env where
  "no_env name = None"

definition full_env :: env where
  "full_env =
     map_of [(''TMDB_API_KEY'', ''k-tmdb''), (''DISCOGS_TOKEN'', ''t-discogs''),
             (''DISCOGS_USER_AGENT'', ''MediaStacks/1.0'')]"

text \<open>A transport that gives every call the same answer.\<close>

definition upstream :: "nat \<Rightarrow> jtext \<Rightarrow> transport" where
  "upstream st txt req = Responded st txt"

section \<open>Properties of the favorites store\<close>

lemma map_fixed: "(map f xs = xs) = (\<forall>x\<in>set xs. f x = x)"
  by (induction xs) auto

lemma some_id_ids:
  "\<forall>x\<in>set xs. \<exists>s. id_of x = Inr s \<Longrightarrow> some_id xs i = Inr (\<exists>x\<in>set xs. id_of x = Inr i)"
  by (induction xs) auto

lemma some_id_False:
  "some_id xs i = Inr False \<Longrightarrow> \<forall>x\<in>set xs. \<exists>s. id_of x = Inr s \<and> s \<noteq> i"
  by (induction xs) (auto split: sum.splits if_splits)

lemma some_id_last:
  "id_of z = Inr i \<Longrightarrow> some_id (ys @ [z]) i \<noteq> Inr False"
  by (induction ys) (auto split: sum.splits)

lemma filter_id_ids:
  "\<forall>x\<in>set xs. \<exists>s. id_of x = Inr s \<Longrightarrow>
   filter_id xs i = Inr (filter (\<lambda>x. id_of x \<noteq> Inr i) xs)"
  by (induction xs) auto

lemma filter_id_Inr:
  "filter_id xs i = Inr ys \<Longrightarrow>
   (\<forall>x\<in>set xs. \<exists>s. id_of x = Inr s) \<and> ys = filter (\<lambda>x. id_of x \<noteq> Inr i) xs"
  by (induction xs arbitrary: ys) (auto split: if_splits sum.splits)

lemma filter_id_again:
  assumes a: "filter_id xs i = Inr ys"
  shows "filter_id ys i = Inr ys"
proof -
  from filter_id_Inr [OF a]
  have n: "\<forall>x\<in>set xs. \<exists>s. id_of x = Inr s" and y: "ys = filter (\<lambda>x. id_of x \<noteq> Inr i) xs"
    by simp_all
  from n y have "\<forall>x\<in>set ys. \<exists>s. id_of x = Inr s" by simp
  from filter_id_ids [OF this, of i] y show ?thesis by simp
qed

lemma load_saved:
  "loadFavorites (Some (JSON_stringify (favorites_json f))) =
     \<lparr>movie = map written (movie f), book = map written (book f), album = map written (album f)\<rparr>"
  by (simp add: loadFavorites_def loadFavorites_try_def JSON_stringify_def favorites_json_def
      array_or_empty_def)

lemma stored_saveFavorites:
  "loadFavorites (stored (saveFavorites f p)) =
     \<lparr>movie = map written (movie f), book = map written (book f), album = map written (album f)\<rparr>"
  by (simp add: saveFavorites_def load_saved)

lemma stored_saveFavorites_kept:
  "kept f \<Longrightarrow> loadFavorites (stored (saveFavorites f p)) = f"
  by (simp add: stored_saveFavorites kept_def)

lemma favs_get_set: "favs_get f k = Some xs \<Longrightarrow> favs_get (favs_set f k ys) k = Some ys"
  by (auto simp: favs_get_def favs_set_def split: if_splits)

lemma favs_set_set: "favs_set (favs_set f k ys) k ys = favs_set f k ys"
  by (auto simp: favs_set_def)

lemma favs_set_same: "favs_get f k = Some xs \<Longrightarrow> favs_set f k xs = f"
  by (auto simp: favs_get_def favs_set_def split: if_splits)

lemma save_save: "saveFavorites f (saveFavorites g p) = saveFavorites f p"
  by (simp add: saveFavorites_def)

lemma kept_get: "kept f \<Longrightarrow> favs_get f k = Some xs \<Longrightarrow> map written xs = xs"
  by (auto simp: kept_def favs_get_def split: if_splits)

lemma kept_set: "kept f \<Longrightarrow> map written ys = ys \<Longrightarrow> kept (favs_set f k ys)"
  by (simp add: kept_def favs_set_def)

lemma written_filter: "map written xs = xs \<Longrightarrow> map written (filter P xs) = filter P xs"
  by (simp add: map_fixed)

lemma renderFavorites_fst: "fst (renderFavorites p) = p"
  by (simp add: renderFavorites_def Let_def split: sum.splits)

lemma removeFavorite_twice_kept:
  assumes k: "kept (loadFavorites (stored p))"
  shows "removeFavorite ty i (fst (removeFavorite ty i p)) = removeFavorite ty i p"
proof (cases "favs_get (loadFavorites (stored p)) ty")
  case None
  then show ?thesis by (simp add: removeFavorite_def)
next
  case (Some xs)
  show ?thesis
  proof (cases "filter_id xs i")
    case (Inl e)
    with Some show ?thesis by (simp add: removeFavorite_def)
  next
    case (Inr ys)
    let ?f = "loadFavorites (stored p)"
    let ?q = "saveFavorites (favs_set ?f ty ys) p"
    have r: "removeFavorite ty i p = renderFavorites ?q"
      using Some Inr by (simp add: removeFavorite_def)
    have fq: "fst (renderFavorites ?q) = ?q"
      by (rule renderFavorites_fst)
    from filter_id_Inr [OF Inr] have "ys = filter (\<lambda>x. id_of x \<noteq> Inr i) xs" by simp
    with written_filter [OF kept_get [OF k Some]] have "map written ys = ys" by simp
    from kept_set [OF k this] have "kept (favs_set ?f ty ys)" .
    then have l: "loadFavorites (stored ?q) = favs_set ?f ty ys"
      by (rule stored_saveFavorites_kept)
    have "removeFavorite ty i ?q = renderFavorites ?q"
      using favs_get_set [OF Some, of ys] filter_id_again [OF Inr]
      by (simp add: removeFavorite_def l favs_set_set save_save)
    with r fq show ?thesis by simp
  qed
qed

lemma stored_setStatus: "stored (setStatus m p) = stored p"
  by (simp add: setStatus_def)

lemma statusText_setStatus: "statusText (setStatus m p) = m"
  by (simp add: setStatus_def)

lemma statusText_saveFavorites: "statusText (saveFavorites f p) = statusText p"
  by (simp add: saveFavorites_def)

lemma get_prop_field:
  "get_prop (Some x) k = (if x = JNull then Inl TypeError else Inr (field (Some x) k))"
  by (cases x) (simp_all add: field_def)

lemma cardTemplate_id:
  assumes "cardTemplate x = Inr c"
  shows "id_of x = Inr (card_id c)"
proof -
  from assms have n: "x \<noteq> JNull"
    by (auto simp: cardTemplate_def get_prop_field)
  from assms n have "String_js (field (Some x) ''id'') = Inr (card_id c)"
    by (auto simp: cardTemplate_def get_prop_field split: sum.splits)
  with n show ?thesis by (simp add: id_of_def get_prop_field)
qed

lemma is_item_id: "is_item x \<Longrightarrow> \<exists>s. id_of x = Inr s"
  by (cases "cardTemplate x") (auto simp: is_item_def dest: cardTemplate_id)

lemma map_throwing_ok:
  "\<forall>x\<in>set xs. \<exists>y. f x = Inr y \<Longrightarrow> \<exists>ys. map_throwing f xs = Inr ys"
  by (induction xs) auto

lemma is_item_card: "is_item x \<Longrightarrow> \<exists>c. cardTemplate x = Inr c"
  by (cases "cardTemplate x") (simp_all add: is_item_def)

lemma is_item_cards: "list_all is_item xs \<Longrightarrow> \<exists>cs. map_throwing cardTemplate xs = Inr cs"
  by (rule map_throwing_ok) (simp add: list_all_iff is_item_card)

lemma renderFavorites_items:
  assumes "all_items (loadFavorites (stored p))"
  shows "renderFavorites p = (p, None)"
proof -
  from assms have m: "list_all is_item (movie (loadFavorites (stored p)))"
    and b: "list_all is_item (book (loadFavorites (stored p)))"
    and a: "list_all is_item (album (loadFavorites (stored p)))"
    by (simp_all add: all_items_def)
  from is_item_cards [OF m] obtain ms where
    ms: "map_throwing cardTemplate (movie (loadFavorites (stored p))) = Inr ms" ..
  from is_item_cards [OF b] obtain bs where
    bs: "map_throwing cardTemplate (book (loadFavorites (stored p))) = Inr bs" ..
  from is_item_cards [OF a] obtain as where
    as: "map_throwing cardTemplate (album (loadFavorites (stored p))) = Inr as" ..
  from ms bs as show ?thesis by (simp add: renderFavorites_def Let_def)
qed

lemma all_items_kept: "all_items f \<Longrightarrow> kept f"
  by (simp add: all_items_def kept_def map_fixed list_all_iff is_item_def)

lemma all_items_get: "all_items f \<Longrightarrow> favs_get f k = Some xs \<Longrightarrow> list_all is_item xs"
  by (auto simp: all_items_def favs_get_def split: if_splits)

lemma all_items_set: "all_items f \<Longrightarrow> list_all is_item ys \<Longrightarrow> all_items (favs_set f k ys)"
  by (simp add: all_items_def favs_set_def)

lemma filter_none: "\<forall>x\<in>set xs. id_of x \<noteq> Inr i \<Longrightarrow> filter (\<lambda>x. id_of x \<noteq> Inr i) xs = xs"
  by (induction xs) auto

subsection \<open>Loading\<close>

text \<open>C8. For every persisted favorites text that is absent or that \<^verbatim>\<open>JSON.parse\<close> rejects,
  \<^verbatim>\<open>loadFavorites\<close> returns the empty collection: \<open>movie\<close>, \<open>book\<close> and \<open>album\<close> all
  empty. It returns a collection on every input: the exceptions of its \<^verbatim>\<open>try\<close> block end in
  the \<^verbatim>\<open>catch\<close>, and none reaches the caller.\<close>

theorem loadFavorites_absent_or_unparseable:
  assumes "raw = None \<or> (\<exists>t e. raw = Some t \<and> JSON_parse t = Inl e)"
  shows "loadFavorites raw = no_favorites"
proof -
  from assms consider "raw = None" | t e where "raw = Some t" "JSON_parse t = Inl e"
    by blast
  then show ?thesis
  proof cases
    case 1
    then show ?thesis by (simp add: loadFavorites_def)
  next
    case 2
    then show ?thesis by (cases t) (simp_all add: loadFavorites_def loadFavorites_try_def)
  qed
qed

theorem loadFavorites_absent_or_unparseable_witness:
  "JSON_parse (NotJson ''[1, 2'') = Inl SyntaxError
   \<and> loadFavorites (Some (NotJson ''[1, 2'')) = no_favorites
   \<and> loadFavorites None = no_favorites"
  using loadFavorites_absent_or_unparseable [of "Some (NotJson ''[1, 2'')"]
    loadFavorites_absent_or_unparseable [of None]
  by simp

lemma loadFavorites_Json:
  "loadFavorites (Some (Json v)) =
     \<lparr>movie = array_or_empty (field (Some v) ''movie''),
      book = array_or_empty (field (Some v) ''book''),
      album = array_or_empty (field (Some v) ''album'')\<rparr>"
  by (cases v) (simp_all add: loadFavorites_def loadFavorites_try_def field_def array_or_empty_def no_favorites_def)

text \<open>C10. \<^verbatim>\<open>loadFavorites\<close> cleans each category on its own. For a stored text that parses to
  \<open>v\<close> and each of the keys \<open>movie\<close>, \<open>book\<close>, \<open>album\<close>: when \<open>v\<close> holds an array under the
  key, that array is returned as it is; when the key is missing or holds something else
  (or \<open>v\<close> is no object at all), the empty array is returned. So all three keys of the
  result are arrays.\<close>

theorem loadFavorites_per_category:
  assumes "key \<in> {''movie'', ''book'', ''album''}"
  shows "(\<forall>xs. field (Some v) key = Some (JArr xs)
            \<longrightarrow> favs_get (loadFavorites (Some (Json v))) key = Some xs)
       \<and> ((\<forall>xs. field (Some v) key \<noteq> Some (JArr xs))
            \<longrightarrow> favs_get (loadFavorites (Some (Json v))) key = Some [])"
proof -
  have a: "array_or_empty w = (case w of Some (JArr xs) \<Rightarrow> xs | _ \<Rightarrow> [])" for w
    by (simp add: array_or_empty_def)
  have b: "(\<forall>xs. w = Some (JArr xs) \<longrightarrow> array_or_empty w = xs)
       \<and> ((\<forall>xs. w \<noteq> Some (JArr xs)) \<longrightarrow> array_or_empty w = [])" for w
    by (auto simp: a split: option.splits json.splits)
  from assms consider "key = ''movie''" | "key = ''book''" | "key = ''album''"
    by blast
  then show ?thesis
  proof cases
    case 1
    with b [of "field (Some v) ''movie''"] show ?thesis
      by (simp add: loadFavorites_Json favs_get_def)
  next
    case 2
    with b [of "field (Some v) ''book''"] show ?thesis
      by (simp add: loadFavorites_Json favs_get_def)
  next
    case 3
    with b [of "field (Some v) ''album''"] show ?thesis
      by (simp add: loadFavorites_Json favs_get_def)
  qed
qed

theorem loadFavorites_per_category_witness:
  "favs_get (loadFavorites (Some (Json (JObj [(''movie'', JArr [JNum ''7'']), (''book'', JStr ''x'')]))))
     ''movie'' = Some [JNum ''7'']
   \<and> favs_get (loadFavorites (Some (Json (JObj [(''movie'', JArr [JNum ''7'']), (''book'', JStr ''x'')]))))
     ''book'' = Some []
   \<and> favs_get (loadFavorites (Some (Json (JObj [(''movie'', JArr [JNum ''7'']), (''book'', JStr ''x'')]))))
     ''album'' = Some []"
  using loadFavorites_per_category [of "''movie''" "JObj [(''movie'', JArr [JNum ''7'']), (''book'', JStr ''x'')]"]
    loadFavorites_per_category [of "''book''" "JObj [(''movie'', JArr [JNum ''7'']), (''book'', JStr ''x'')]"]
    loadFavorites_per_category [of "''album''" "JObj [(''movie'', JArr [JNum ''7'']), (''book'', JStr ''x'')]"]
  by (simp add: field_def)

subsection \<open>What the store writes\<close>

lemma id_of_item_json: "id_of (item_json it) = Inr (id' it)"
  by (simp add: id_of_def item_json_def String_js_def)

lemma written_item_json: "written (item_json it) = item_json it"
  by (simp add: item_json_def)

lemma is_item_item_json: "is_item (item_json it)"
  by (simp add: is_item_def written_item_json)
     (simp add: item_json_def cardTemplate_def field_def or_else_def escapeHtml_def String_js_def)

lemma load_five_movies:
  "loadFavorites (stored five_movies) =
     \<lparr>movie = map (\<lambda>i. item_json (movie_fav i)) [''1'', ''2'', ''3'', ''4'', ''5''],
      book = [], album = []\<rparr>"
  by (simp add: five_movies_def stored_saveFavorites written_item_json)

lemma all_items_five_movies: "all_items (loadFavorites (stored five_movies))"
  by (simp add: load_five_movies all_items_def is_item_item_json)

lemma addFavorite_cases:
  assumes g: "favs_get (loadFavorites (stored p)) (type' it) = Some xs"
  shows "some_id xs (id' it) = Inl e \<Longrightarrow> addFavorite it p = (p, Some e)"
    and "some_id xs (id' it) = Inr True \<Longrightarrow> addFavorite it p = (setStatus duplicate_msg p, None)"
    and "some_id xs (id' it) = Inr False \<Longrightarrow> 5 \<le> length xs \<Longrightarrow>
           addFavorite it p = (setStatus (capacity_msg (type' it)) p, None)"
    and "some_id xs (id' it) = Inr False \<Longrightarrow> length xs < 5 \<Longrightarrow>
           addFavorite it p =
             (setStatus (added_msg (type' it))
                (saveFavorites (favs_set (loadFavorites (stored p)) (type' it) (xs @ [item_json it])) p),
              None)"
  using g by (simp_all add: addFavorite_def Let_def)

lemma addFavorite_None:
  "favs_get (loadFavorites (stored p)) (type' it) = None \<Longrightarrow> addFavorite it p = (p, Some TypeError)"
  by (simp add: addFavorite_def Let_def)

subsection \<open>Removing\<close>

text \<open>C9, as the code has it. On every page whose stored entries are items (each is
  written by \<^verbatim>\<open>JSON.stringify\<close> so that it reads back as it is, and a card can be made of it:
  it is not \<^verbatim>\<open>null\<close>, and its image, title, subtitle, type and id have strings), for every
  category and every id that no entry of the category has (as strings), \<^verbatim>\<open>removeFavorite\<close>
  ends without an exception and the collection that \<^verbatim>\<open>loadFavorites\<close> reads afterwards is
  the one it read before. And on every page whose stored entries are written back as they
  are (none holds a number that is not finite), for every type and id, removing twice
  leaves what removing once leaves, exception included.\<close>

theorem removeFavorite_absent_id_and_idempotent:
  "(favs_get (loadFavorites (stored p)) ty = Some xs
      \<and> all_items (loadFavorites (stored p))
      \<and> (\<forall>x\<in>set xs. id_of x \<noteq> Inr i)
    \<longrightarrow> snd (removeFavorite ty i p) = None
        \<and> loadFavorites (stored (fst (removeFavorite ty i p))) = loadFavorites (stored p)
        \<and> statusText (fst (removeFavorite ty i p)) = statusText p)
   \<and> (kept (loadFavorites (stored p))
    \<longrightarrow> removeFavorite ty i (fst (removeFavorite ty i p)) = removeFavorite ty i p)"
proof (intro conjI impI)
  assume h: "favs_get (loadFavorites (stored p)) ty = Some xs
      \<and> all_items (loadFavorites (stored p))
      \<and> (\<forall>x\<in>set xs. id_of x \<noteq> Inr i)"
  let ?f = "loadFavorites (stored p)"
  from h have g: "favs_get ?f ty = Some xs" and a: "all_items ?f"
    and n: "\<forall>x\<in>set xs. id_of x \<noteq> Inr i"
    by simp_all
  from all_items_get [OF a g] have "\<forall>x\<in>set xs. \<exists>s. id_of x = Inr s"
    by (simp add: list_all_iff is_item_id)
  from filter_id_ids [OF this, of i] filter_none [OF n] have fi: "filter_id xs i = Inr xs"
    by simp
  have r: "removeFavorite ty i p = renderFavorites (saveFavorites ?f p)"
    using g fi by (simp add: removeFavorite_def favs_set_same)
  have l: "loadFavorites (stored (saveFavorites ?f p)) = ?f"
    by (rule stored_saveFavorites_kept [OF all_items_kept [OF a]])
  with a have "all_items (loadFavorites (stored (saveFavorites ?f p)))" by simp
  from renderFavorites_items [OF this] r
  have e: "removeFavorite ty i p = (saveFavorites ?f p, None)" by simp
  show "snd (removeFavorite ty i p) = None" using e by simp
  show "loadFavorites (stored (fst (removeFavorite ty i p))) = ?f"
    using e l by simp
  show "statusText (fst (removeFavorite ty i p)) = statusText p"
    using e by (simp add: statusText_saveFavorites)
next
  assume "kept (loadFavorites (stored p))"
  then show "removeFavorite ty i (fst (removeFavorite ty i p)) = removeFavorite ty i p"
    by (rule removeFavorite_twice_kept)
qed

text \<open>The claim as written fails on the stored text \<^verbatim>\<open>{"movie":[{"id":1e999}]}\<close>. The id of
  its entry has the string \<open>Infinity\<close>, so the id \<open>null\<close> is not present; removing \<open>null\<close>
  ends without an exception and saves the id as \<^verbatim>\<open>null\<close>, which changes the collection, and
  removing \<open>null\<close> once more deletes the entry.\<close>

theorem removeFavorite_absent_id_and_idempotent_counterexample:
  "favs_get (loadFavorites (stored infinite_id_page)) ''movie''
     = Some [JObj [(''id'', JNum ''Infinity'')]]
   \<and> id_of (JObj [(''id'', JNum ''Infinity'')]) = Inr ''Infinity''
   \<and> snd (removeFavorite ''movie'' ''null'' infinite_id_page) = None
   \<and> loadFavorites (stored (fst (removeFavorite ''movie'' ''null'' infinite_id_page)))
       = \<lparr>movie = [JObj [(''id'', JNull)]], book = [], album = []\<rparr>
   \<and> loadFavorites (stored (fst (removeFavorite ''movie'' ''null'' infinite_id_page)))
       \<noteq> loadFavorites (stored infinite_id_page)
   \<and> loadFavorites (stored (fst (removeFavorite ''movie'' ''null''
         (fst (removeFavorite ''movie'' ''null'' infinite_id_page)))))
       = \<lparr>movie = [], book = [], album = []\<rparr>
   \<and> removeFavorite ''movie'' ''null'' (fst (removeFavorite ''movie'' ''null'' infinite_id_page))
       \<noteq> removeFavorite ''movie'' ''null'' infinite_id_page"
proof -
  have l: "loadFavorites (stored infinite_id_page)
       = \<lparr>movie = [JObj [(''id'', JNum ''Infinity'')]], book = [], album = []\<rparr>"
    by (simp add: infinite_id_page_def loadFavorites_def loadFavorites_try_def array_or_empty_def)
  have i: "id_of (JObj [(''id'', JNum ''Infinity'')]) = Inr ''Infinity''"
    by (simp add: id_of_def String_js_def)
  have c: "cardTemplate (JObj [(''id'', JNull)]) =
      Inr \<lparr>card_img = None, card_title = ''undefined'', card_sub = [],
           card_type = ''undefined'', card_id = ''null''\<rparr>"
    by (simp add: cardTemplate_def field_def or_else_def escapeHtml_def String_js_def escape_char_def)
  let ?q = "saveFavorites \<lparr>movie = [JObj [(''id'', JNum ''Infinity'')]], book = [], album = []\<rparr>
              infinite_id_page"
  have lq: "loadFavorites (stored ?q) = \<lparr>movie = [JObj [(''id'', JNull)]], book = [], album = []\<rparr>"
    by (simp add: stored_saveFavorites)
  have r1: "removeFavorite ''movie'' ''null'' infinite_id_page = (?q, None)"
    by (simp add: removeFavorite_def l favs_get_def favs_set_def i renderFavorites_def lq c)
  let ?r = "saveFavorites \<lparr>movie = [], book = [], album = []\<rparr> ?q"
  have i2: "id_of (JObj [(''id'', JNull)]) = Inr ''null''"
    by (simp add: id_of_def String_js_def)
  have lr: "loadFavorites (stored ?r) = \<lparr>movie = [], book = [], album = []\<rparr>"
    by (simp add: stored_saveFavorites)
  have r2: "removeFavorite ''movie'' ''null'' ?q = (?r, None)"
    by (simp add: removeFavorite_def lq favs_get_def favs_set_def i2 renderFavorites_def lr)
  have d: "loadFavorites (stored ?r) \<noteq> loadFavorites (stored ?q)"
    by (simp add: lq lr)
  then have "?r \<noteq> ?q" by auto
  with l i r1 r2 lq lr show ?thesis
    by (simp add: favs_get_def)
qed

theorem removeFavorite_absent_id_and_idempotent_witness:
  "favs_get (loadFavorites (stored five_movies)) ''movie''
     = Some (map (\<lambda>i. item_json (movie_fav i)) [''1'', ''2'', ''3'', ''4'', ''5''])
   \<and> all_items (loadFavorites (stored five_movies))
   \<and> kept (loadFavorites (stored five_movies))
   \<and> snd (removeFavorite ''movie'' ''9'' five_movies) = None
   \<and> loadFavorites (stored (fst (removeFavorite ''movie'' ''9'' five_movies)))
       = loadFavorites (stored five_movies)
   \<and> removeFavorite ''movie'' ''9'' (fst (removeFavorite ''movie'' ''9'' five_movies))
       = removeFavorite ''movie'' ''9'' five_movies"
proof -
  have g: "favs_get (loadFavorites (stored five_movies)) ''movie''
     = Some (map (\<lambda>i. item_json (movie_fav i)) [''1'', ''2'', ''3'', ''4'', ''5''])"
    by (simp add: load_five_movies favs_get_def)
  have n: "\<forall>x\<in>set (map (\<lambda>i. item_json (movie_fav i)) [''1'', ''2'', ''3'', ''4'', ''5'']).
             id_of x \<noteq> Inr ''9''"
    by (simp add: id_of_item_json movie_fav_def)
  note a = all_items_five_movies
  note k = all_items_kept [OF a]
  from g n a k
    removeFavorite_absent_id_and_idempotent
      [of five_movies "''movie''" "map (\<lambda>i. item_json (movie_fav i)) [''1'', ''2'', ''3'', ''4'', ''5'']"
          "''9''"]
  show ?thesis by simp
qed

subsection \<open>Adding\<close>

lemma dup_neq_added: "duplicate_msg \<noteq> added_msg k"
  by (simp add: duplicate_msg_def added_msg_def)

lemma cap_neq_added: "capacity_msg k \<noteq> added_msg k'"
  by (simp add: capacity_msg_def added_msg_def)

lemma addFavorite_added:
  assumes a: "addFavorite it p = (p', None)" and s: "statusText p' = added_msg (type' it)"
  shows "\<exists>xs. favs_get (loadFavorites (stored p)) (type' it) = Some xs
           \<and> some_id xs (id' it) = Inr False
           \<and> p' = setStatus (added_msg (type' it))
                (saveFavorites (favs_set (loadFavorites (stored p)) (type' it) (xs @ [item_json it])) p)"
proof (cases "favs_get (loadFavorites (stored p)) (type' it)")
  case None
  from addFavorite_None [OF None] a show ?thesis by simp
next
  case (Some xs)
  note c = addFavorite_cases [OF Some]
  show ?thesis
  proof (cases "some_id xs (id' it)")
    case (Inl e)
    from c(1) [OF Inl] a show ?thesis by simp
  next
    case (Inr b)
    show ?thesis
    proof (cases b)
      case True
      with Inr c(2) a have "p' = setStatus duplicate_msg p" by simp
      with s dup_neq_added [of "type' it"] show ?thesis by (simp add: statusText_setStatus)
    next
      case False
      show ?thesis
      proof (cases "5 \<le> length xs")
        case True
        with False Inr c(3) a have "p' = setStatus (capacity_msg (type' it)) p" by simp
        with s cap_neq_added [of "type' it" "type' it"] show ?thesis
          by (simp add: statusText_setStatus)
      next
        case F: False
        with False Inr c(4) a
        have "p' = setStatus (added_msg (type' it))
                (saveFavorites (favs_set (loadFavorites (stored p)) (type' it) (xs @ [item_json it])) p)"
          by simp
        with Some Inr False show ?thesis by simp
      qed
    qed
  qed
qed

lemma favs_get_saved:
  "favs_get f k = Some xs \<Longrightarrow>
   favs_get (loadFavorites (stored (saveFavorites (favs_set f k ys) p))) k = Some (map written ys)"
  by (auto simp: stored_saveFavorites favs_get_def favs_set_def split: if_splits)

text \<open>C6, as the code has it. For every item and every page in which every entry of the
  item's category has an id string (the entry is not \<^verbatim>\<open>null\<close> and \<^verbatim>\<open>String\<close> of its id does not
  throw) and one entry has the item's id as a string, \<^verbatim>\<open>addFavorite\<close> reports "Already in
  favorites." (the \<open>DuplicateError\<close>) and leaves the stored text, hence the category's
  sequence, as it was. And when an add has succeeded, a second add of an item of the same
  type and id on the page it left does not succeed: it reports the duplicate or ends with
  an exception, and it leaves the page as it was but for the status line. So the same
  (type, id) is added at most once.\<close>

theorem addFavorite_duplicate:
  "(favs_get (loadFavorites (stored p)) (type' it) = Some xs
      \<and> (\<forall>x\<in>set xs. \<exists>s. id_of x = Inr s)
      \<and> (\<exists>x\<in>set xs. id_of x = Inr (id' it))
    \<longrightarrow> addFavorite it p = (setStatus duplicate_msg p, None)
        \<and> stored (fst (addFavorite it p)) = stored p
        \<and> favs_get (loadFavorites (stored (fst (addFavorite it p)))) (type' it) = Some xs)
   \<and> (addFavorite it p = (p', None) \<and> statusText p' = added_msg (type' it)
        \<and> type' it2 = type' it \<and> id' it2 = id' it
    \<longrightarrow> addFavorite it2 p' = (setStatus duplicate_msg p', None)
        \<or> (\<exists>e. addFavorite it2 p' = (p', Some e)))"
proof (intro conjI impI)
  assume h: "favs_get (loadFavorites (stored p)) (type' it) = Some xs
      \<and> (\<forall>x\<in>set xs. \<exists>s. id_of x = Inr s) \<and> (\<exists>x\<in>set xs. id_of x = Inr (id' it))"
  then have g: "favs_get (loadFavorites (stored p)) (type' it) = Some xs"
    and n: "\<forall>x\<in>set xs. \<exists>s. id_of x = Inr s" and d: "\<exists>x\<in>set xs. id_of x = Inr (id' it)"
    by simp_all
  from some_id_ids [OF n, of "id' it"] d have "some_id xs (id' it) = Inr True" by simp
  from addFavorite_cases(2) [OF g this]
  show e: "addFavorite it p = (setStatus duplicate_msg p, None)" .
  show "stored (fst (addFavorite it p)) = stored p"
    by (simp add: e stored_setStatus)
  then show "favs_get (loadFavorites (stored (fst (addFavorite it p)))) (type' it) = Some xs"
    using g by simp
next
  assume h: "addFavorite it p = (p', None) \<and> statusText p' = added_msg (type' it)
        \<and> type' it2 = type' it \<and> id' it2 = id' it"
  then have a: "addFavorite it p = (p', None)" and s: "statusText p' = added_msg (type' it)"
    and t: "type' it2 = type' it" and i: "id' it2 = id' it"
    by simp_all
  from addFavorite_added [OF a s] obtain xs where
    g: "favs_get (loadFavorites (stored p)) (type' it) = Some xs"
    and p': "p' = setStatus (added_msg (type' it))
                (saveFavorites (favs_set (loadFavorites (stored p)) (type' it) (xs @ [item_json it])) p)"
    by blast
  have g': "favs_get (loadFavorites (stored p')) (type' it2) = Some (map written xs @ [item_json it])"
    using favs_get_saved [OF g, of "xs @ [item_json it]" p] p' t
    by (simp add: stored_setStatus written_item_json)
  have nf: "some_id (map written xs @ [item_json it]) (id' it2) \<noteq> Inr False"
    using some_id_last [of "item_json it" "id' it2" "map written xs"] i
    by (simp add: id_of_item_json)
  show "addFavorite it2 p' = (setStatus duplicate_msg p', None)
        \<or> (\<exists>e. addFavorite it2 p' = (p', Some e))"
  proof (cases "some_id (map written xs @ [item_json it]) (id' it2)")
    case (Inl e)
    from addFavorite_cases(1) [OF g' Inl] show ?thesis by blast
  next
    case (Inr b)
    with nf have "some_id (map written xs @ [item_json it]) (id' it2) = Inr True"
      by (cases b) simp_all
    from addFavorite_cases(2) [OF g' this] show ?thesis by blast
  qed
qed

text \<open>The claim as written fails on the stored text
  \<^verbatim>\<open>{"movie":[{"id":{"toString":1}},{"id":"3"}]}\<close>: the category holds an entry with the id \<open>3\<close>,
  but \<^verbatim>\<open>String\<close> of the first id throws before the check reaches it, and the add of an item
  with that id ends with a \<open>TypeError\<close>, not with the duplicate message.\<close>

theorem addFavorite_duplicate_counterexample:
  "favs_get (loadFavorites (stored unprintable_id_page)) (type' (movie_fav ''3''))
     = Some [JObj [(''id'', JObj [(''toString'', JNum ''1'')])], JObj [(''id'', JStr ''3'')]]
   \<and> id_of (JObj [(''id'', JStr ''3'')]) = Inr (id' (movie_fav ''3''))
   \<and> addFavorite (movie_fav ''3'') unprintable_id_page = (unprintable_id_page, Some TypeError)"
proof -
  have g: "favs_get (loadFavorites (stored unprintable_id_page)) (type' (movie_fav ''3''))
     = Some [JObj [(''id'', JObj [(''toString'', JNum ''1'')])], JObj [(''id'', JStr ''3'')]]"
    by (simp add: unprintable_id_page_def loadFavorites_def loadFavorites_try_def array_or_empty_def
        favs_get_def movie_fav_def)
  have "some_id [JObj [(''id'', JObj [(''toString'', JNum ''1'')])], JObj [(''id'', JStr ''3'')]]
          (id' (movie_fav ''3'')) = Inl TypeError"
    by (simp add: id_of_def String_js_def)
  from addFavorite_cases(1) [OF g this] g show ?thesis
    by (simp add: id_of_def String_js_def movie_fav_def)
qed

lemma add_fresh:
  "addFavorite (movie_fav ''1'') fresh_page =
     (setStatus (added_msg ''movie'')
        (saveFavorites \<lparr>movie = [item_json (movie_fav ''1'')], book = [], album = []\<rparr> fresh_page),
      None)"
  by (simp add: addFavorite_def fresh_page_def loadFavorites_def no_favorites_def favs_get_def
      favs_set_def movie_fav_def Let_def)

theorem addFavorite_duplicate_witness:
  "favs_get (loadFavorites (stored five_movies)) (type' (movie_fav ''3''))
     = Some (map (\<lambda>i. item_json (movie_fav i)) [''1'', ''2'', ''3'', ''4'', ''5''])
   \<and> addFavorite (movie_fav ''3'') five_movies = (setStatus duplicate_msg five_movies, None)
   \<and> snd (addFavorite (movie_fav ''1'') fresh_page) = None
   \<and> statusText (fst (addFavorite (movie_fav ''1'') fresh_page)) = added_msg ''movie''
   \<and> (addFavorite ((movie_fav ''1'')\<lparr>title := ''Ronin''\<rparr>) (fst (addFavorite (movie_fav ''1'') fresh_page))
         = (setStatus duplicate_msg (fst (addFavorite (movie_fav ''1'') fresh_page)), None)
       \<or> (\<exists>e. addFavorite ((movie_fav ''1'')\<lparr>title := ''Ronin''\<rparr>)
                 (fst (addFavorite (movie_fav ''1'') fresh_page))
               = (fst (addFavorite (movie_fav ''1'') fresh_page), Some e)))
   \<and> addFavorite ((movie_fav ''1'')\<lparr>title := ''Ronin''\<rparr>) (fst (addFavorite (movie_fav ''1'') fresh_page))
       = (setStatus duplicate_msg (fst (addFavorite (movie_fav ''1'') fresh_page)), None)"
proof -
  have a: "favs_get (loadFavorites (stored five_movies)) (type' (movie_fav ''3''))
     = Some (map (\<lambda>i. item_json (movie_fav i)) [''1'', ''2'', ''3'', ''4'', ''5''])"
    by (simp add: load_five_movies favs_get_def movie_fav_def)
  have b: "addFavorite (movie_fav ''3'') five_movies = (setStatus duplicate_msg five_movies, None)"
    using a addFavorite_duplicate
      [of five_movies "movie_fav ''3''" "map (\<lambda>i. item_json (movie_fav i)) [''1'', ''2'', ''3'', ''4'', ''5'']"]
    by (simp add: id_of_item_json)
  let ?p = "fst (addFavorite (movie_fav ''1'') fresh_page)"
  let ?it = "(movie_fav ''1'')\<lparr>title := ''Ronin''\<rparr>"
  have c: "addFavorite ?it ?p = (setStatus duplicate_msg ?p, None)
       \<or> (\<exists>e. addFavorite ?it ?p = (?p, Some e))"
    using addFavorite_duplicate [of fresh_page "movie_fav ''1''" _ ?p ?it]
    by (simp add: add_fresh statusText_setStatus) (simp add: movie_fav_def)
  have l: "loadFavorites (stored ?p)
       = \<lparr>movie = [item_json (movie_fav ''1'')], book = [], album = []\<rparr>"
    by (simp add: add_fresh stored_setStatus stored_saveFavorites written_item_json)
  have t: "type' ?it = ''movie''" by (simp add: movie_fav_def)
  have g: "favs_get (loadFavorites (stored ?p)) (type' ?it) = Some [item_json (movie_fav ''1'')]"
    by (simp add: l t favs_get_def)
  have d: "addFavorite ?it ?p = (setStatus duplicate_msg ?p, None)"
    using g addFavorite_duplicate [of ?p ?it "[item_json (movie_fav ''1'')]"]
    by (simp add: id_of_item_json)
  from a b c d show ?thesis
    by (simp add: add_fresh statusText_setStatus)
qed

subsection \<open>Capacity\<close>

lemma at_most_five_set:
  "at_most_five f \<Longrightarrow> length ys \<le> 5 \<Longrightarrow> at_most_five (favs_set f k ys)"
  by (simp add: at_most_five_def favs_set_def)

lemma favs_get_length:
  "at_most_five f \<Longrightarrow> favs_get f k = Some xs \<Longrightarrow> length xs \<le> 5"
  by (auto simp: at_most_five_def favs_get_def split: if_splits)

lemma within_setStatus: "within_capacity (setStatus m p) = within_capacity p"
  by (simp add: within_capacity_def stored_setStatus)

lemma within_save: "within_capacity (saveFavorites f p) = at_most_five f"
  by (simp add: within_capacity_def stored_saveFavorites at_most_five_def)

lemma within_add:
  assumes w: "within_capacity p" shows "within_capacity (fst (addFavorite it p))"
proof (cases "favs_get (loadFavorites (stored p)) (type' it)")
  case None
  from addFavorite_None [OF None] w show ?thesis by simp
next
  case (Some xs)
  note c = addFavorite_cases [OF Some]
  show ?thesis
  proof (cases "some_id xs (id' it)")
    case (Inl e)
    from c(1) [OF Inl] w show ?thesis by simp
  next
    case (Inr b)
    show ?thesis
    proof (cases b)
      case True
      with Inr c(2) w show ?thesis by (simp add: within_setStatus)
    next
      case False
      show ?thesis
      proof (cases "5 \<le> length xs")
        case True
        with False Inr c(3) w show ?thesis by (simp add: within_setStatus)
      next
        case F: False
        then have "length (xs @ [item_json it]) \<le> 5" by simp
        from at_most_five_set [OF _ this] w
        have "at_most_five (favs_set (loadFavorites (stored p)) (type' it) (xs @ [item_json it]))"
          by (simp add: within_capacity_def)
        with F False Inr c(4) show ?thesis
          by (simp add: within_setStatus within_save)
      qed
    qed
  qed
qed

lemma within_remove:
  assumes w: "within_capacity p" shows "within_capacity (fst (removeFavorite ty i p))"
proof (cases "favs_get (loadFavorites (stored p)) ty")
  case None
  with w show ?thesis by (simp add: removeFavorite_def)
next
  case (Some xs)
  show ?thesis
  proof (cases "filter_id xs i")
    case (Inl e)
    with Some w show ?thesis by (simp add: removeFavorite_def)
  next
    case (Inr ys)
    from filter_id_Inr [OF Inr] have "length ys \<le> length xs" by simp
    with favs_get_length [OF _ Some] w have "length ys \<le> 5"
      by (simp add: within_capacity_def)
    from at_most_five_set [OF _ this] w
    have "at_most_five (favs_set (loadFavorites (stored p)) ty ys)"
      by (simp add: within_capacity_def)
    with Some Inr show ?thesis
      by (simp add: removeFavorite_def renderFavorites_fst within_save)
  qed
qed

lemma within_clear: "within_capacity (fst (clearFavorites p))"
  by (simp add: clearFavorites_def renderFavorites_fst within_capacity_def loadFavorites_def
      no_favorites_def at_most_five_def)

lemma within_act: "within_capacity p \<Longrightarrow> within_capacity (act a p)"
  by (cases a) (simp_all add: within_add within_remove within_clear)

lemma within_run: "within_capacity p \<Longrightarrow> within_capacity (run as p)"
  by (induction as arbitrary: p) (simp_all add: within_act)

lemma addFavorite_full_stored:
  assumes g: "favs_get (loadFavorites (stored p)) (type' it) = Some xs" and l: "5 \<le> length xs"
  shows "stored (fst (addFavorite it p)) = stored p"
proof (cases "some_id xs (id' it)")
  case (Inl e)
  from addFavorite_cases(1) [OF g Inl] show ?thesis by simp
next
  case (Inr b)
  show ?thesis
  proof (cases b)
    case True
    with Inr addFavorite_cases(2) [OF g] show ?thesis by (simp add: stored_setStatus)
  next
    case False
    with Inr l addFavorite_cases(3) [OF g] show ?thesis by (simp add: stored_setStatus)
  qed
qed

text \<open>C5, as the code has it. On every page whose category for the item holds five entries
  or more, \<^verbatim>\<open>addFavorite\<close> leaves the stored text, hence the sequence of every category, as it
  was, in length, content and order. The duplicate check comes before the capacity check.
  When every entry of the category has an id string (the entry is not \<^verbatim>\<open>null\<close> and \<^verbatim>\<open>String\<close>
  of its id does not throw): if none of these strings is the id of the new item, the add
  reports "You already have 5 ...s. Remove one first." (the \<open>CapacityError\<close>); if one of
  them is, it reports "Already in favorites." (the \<open>DuplicateError\<close>). And a page in which
  no category holds more than five entries stays so under every sequence of adds, removes
  and clears.\<close>

theorem addFavorite_at_capacity:
  "(favs_get (loadFavorites (stored p)) (type' it) = Some xs \<and> 5 \<le> length xs
    \<longrightarrow> stored (fst (addFavorite it p)) = stored p
        \<and> ((\<forall>x\<in>set xs. \<exists>s. id_of x = Inr s \<and> s \<noteq> id' it)
             \<longrightarrow> addFavorite it p = (setStatus (capacity_msg (type' it)) p, None))
        \<and> ((\<forall>x\<in>set xs. \<exists>s. id_of x = Inr s) \<and> (\<exists>x\<in>set xs. id_of x = Inr (id' it))
             \<longrightarrow> addFavorite it p = (setStatus duplicate_msg p, None)))
   \<and> (within_capacity p \<longrightarrow> within_capacity (run as p))"
proof (intro conjI impI)
  assume "favs_get (loadFavorites (stored p)) (type' it) = Some xs \<and> 5 \<le> length xs"
  then have g: "favs_get (loadFavorites (stored p)) (type' it) = Some xs" and l: "5 \<le> length xs"
    by simp_all
  show "stored (fst (addFavorite it p)) = stored p"
    by (rule addFavorite_full_stored [OF g l])
  {
    assume a: "\<forall>x\<in>set xs. \<exists>s. id_of x = Inr s \<and> s \<noteq> id' it"
    then have "\<forall>x\<in>set xs. \<exists>s. id_of x = Inr s" by blast
    from some_id_ids [OF this, of "id' it"] a have "some_id xs (id' it) = Inr False" by auto
    from addFavorite_cases(3) [OF g this l]
    show "addFavorite it p = (setStatus (capacity_msg (type' it)) p, None)" .
  }
  {
    assume "(\<forall>x\<in>set xs. \<exists>s. id_of x = Inr s) \<and> (\<exists>x\<in>set xs. id_of x = Inr (id' it))"
    with some_id_ids [of xs "id' it"] have "some_id xs (id' it) = Inr True" by simp
    from addFavorite_cases(2) [OF g this]
    show "addFavorite it p = (setStatus duplicate_msg p, None)" .
  }
next
  assume "within_capacity p"
  then show "within_capacity (run as p)" by (rule within_run)
qed

text \<open>The claim as written fails where the sixth item repeats an id of the five: the add
  ends with the duplicate message, not with the capacity message.\<close>

theorem addFavorite_at_capacity_counterexample:
  "length (movie (loadFavorites (stored five_movies))) = 5
   \<and> type' (movie_fav ''3'') = ''movie''
   \<and> statusText (fst (addFavorite (movie_fav ''3'') five_movies)) = duplicate_msg
   \<and> duplicate_msg \<noteq> capacity_msg ''movie''"
proof -
  have g: "favs_get (loadFavorites (stored five_movies)) (type' (movie_fav ''3''))
     = Some (map (\<lambda>i. item_json (movie_fav i)) [''1'', ''2'', ''3'', ''4'', ''5''])"
    by (simp add: load_five_movies favs_get_def movie_fav_def)
  have n: "\<forall>x\<in>set (map (\<lambda>i. item_json (movie_fav i)) [''1'', ''2'', ''3'', ''4'', ''5'']).
             \<exists>s. id_of x = Inr s"
    by (simp add: id_of_item_json)
  have "some_id (map (\<lambda>i. item_json (movie_fav i)) [''1'', ''2'', ''3'', ''4'', ''5''])
          (id' (movie_fav ''3'')) = Inr True"
    using some_id_ids [OF n, of "id' (movie_fav ''3'')"]
    by (simp add: id_of_item_json)
  from addFavorite_cases(2) [OF g this]
  have "addFavorite (movie_fav ''3'') five_movies = (setStatus duplicate_msg five_movies, None)" .
  then show ?thesis
    by (simp add: load_five_movies statusText_setStatus movie_fav_def duplicate_msg_def capacity_msg_def)
qed

theorem addFavorite_at_capacity_witness:
  "favs_get (loadFavorites (stored five_movies)) (type' (movie_fav ''6''))
     = Some (map (\<lambda>i. item_json (movie_fav i)) [''1'', ''2'', ''3'', ''4'', ''5''])
   \<and> addFavorite (movie_fav ''6'') five_movies = (setStatus (capacity_msg ''movie'') five_movies, None)
   \<and> stored (fst (addFavorite (movie_fav ''6'') five_movies)) = stored five_movies
   \<and> within_capacity five_movies
   \<and> within_capacity (run [Add (movie_fav ''6''), Remove ''movie'' ''2'', Add (movie_fav ''6''), Clear] five_movies)"
proof -
  have g: "favs_get (loadFavorites (stored five_movies)) (type' (movie_fav ''6''))
     = Some (map (\<lambda>i. item_json (movie_fav i)) [''1'', ''2'', ''3'', ''4'', ''5''])"
    by (simp add: load_five_movies favs_get_def movie_fav_def)
  have w: "within_capacity five_movies"
    by (simp add: within_capacity_def load_five_movies at_most_five_def)
  have t: "type' (movie_fav ''6'') = ''movie''" by (simp add: movie_fav_def)
  have i: "id' (movie_fav j) = j" for j by (simp add: movie_fav_def)
  show ?thesis
    using g w addFavorite_at_capacity
      [of five_movies "movie_fav ''6''" "map (\<lambda>i. item_json (movie_fav i)) [''1'', ''2'', ''3'', ''4'', ''5'']"
          "[Add (movie_fav ''6''), Remove ''movie'' ''2'', Add (movie_fav ''6''), Clear]"]
    by (auto simp: id_of_item_json t i stored_setStatus)
qed

subsection \<open>The pages that the store itself leaves\<close>

lemma all_items_no_favorites: "all_items (loadFavorites None)"
  by (simp add: loadFavorites_def no_favorites_def all_items_def)

lemma all_items_add:
  assumes w: "all_items (loadFavorites (stored p))"
  shows "all_items (loadFavorites (stored (fst (addFavorite it p))))"
proof (cases "favs_get (loadFavorites (stored p)) (type' it)")
  case None
  from addFavorite_None [OF None] w show ?thesis by simp
next
  case (Some xs)
  note c = addFavorite_cases [OF Some]
  show ?thesis
  proof (cases "some_id xs (id' it)")
    case (Inl e)
    from c(1) [OF Inl] w show ?thesis by simp
  next
    case (Inr b)
    show ?thesis
    proof (cases b)
      case True
      with Inr c(2) w show ?thesis by (simp add: stored_setStatus)
    next
      case False
      show ?thesis
      proof (cases "5 \<le> length xs")
        case True
        with False Inr c(3) w show ?thesis by (simp add: stored_setStatus)
      next
        case F: False
        from all_items_get [OF w Some] have "list_all is_item (xs @ [item_json it])"
          by (simp add: is_item_item_json)
        from all_items_set [OF w this]
        have a: "all_items (favs_set (loadFavorites (stored p)) (type' it) (xs @ [item_json it]))" .
        from stored_saveFavorites_kept [OF all_items_kept [OF a]] a F False Inr c(4)
        show ?thesis by (simp add: stored_setStatus)
      qed
    qed
  qed
qed

lemma all_items_remove:
  assumes w: "all_items (loadFavorites (stored p))"
  shows "all_items (loadFavorites (stored (fst (removeFavorite ty i p))))"
proof (cases "favs_get (loadFavorites (stored p)) ty")
  case None
  with w show ?thesis by (simp add: removeFavorite_def)
next
  case (Some xs)
  show ?thesis
  proof (cases "filter_id xs i")
    case (Inl e)
    with Some w show ?thesis by (simp add: removeFavorite_def)
  next
    case (Inr ys)
    from filter_id_Inr [OF Inr] all_items_get [OF w Some] have "list_all is_item ys"
      by (simp add: list_all_iff)
    from all_items_set [OF w this]
    have a: "all_items (favs_set (loadFavorites (stored p)) ty ys)" .
    from stored_saveFavorites_kept [OF all_items_kept [OF a]] a Some Inr show ?thesis
      by (simp add: removeFavorite_def renderFavorites_fst)
  qed
qed

lemma all_items_act:
  "all_items (loadFavorites (stored p)) \<Longrightarrow> all_items (loadFavorites (stored (act a p)))"
  by (cases a)
     (simp_all add: all_items_add all_items_remove clearFavorites_def renderFavorites_fst
        all_items_no_favorites)

text \<open>Every page that adds, removes and clears lead to from a page with nothing stored
  holds items only; so does every page they lead to from a page that holds items only.\<close>

lemma all_items_run:
  "all_items (loadFavorites (stored p)) \<Longrightarrow> all_items (loadFavorites (stored (run as p)))"
  by (induction as arbitrary: p) (simp_all add: all_items_act)

lemma all_items_run_fresh: "all_items (loadFavorites (stored (run as fresh_page)))"
  by (rule all_items_run) (simp add: fresh_page_def all_items_no_favorites)

section \<open>Properties of the search endpoints\<close>

lemma requireEnv_unset: "unset env n \<Longrightarrow> requireEnv env n = Inl (Error (''Missing env var: '' @ n))"
  by (simp add: requireEnv_def)

lemma requireEnv_set: "\<not> unset env n \<Longrightarrow> requireEnv env n = Inr ()"
  by (simp add: requireEnv_def)

lemma unset_full_env:
  "\<not> unset full_env ''TMDB_API_KEY''" "\<not> unset full_env ''DISCOGS_TOKEN''"
  "\<not> unset full_env ''DISCOGS_USER_AGENT''"
  by (simp_all add: unset_def full_env_def)

lemma unset_no_env: "unset no_env n"
  by (simp add: unset_def no_env_def)

lemma query_q_blank: "query_q (Some (JStr ''  '')) = Inr []"
  by (simp add: query_q_def or_else_def String_js_def trim_def is_space_def)

lemma query_q_daft: "query_q (Some (JStr ''daft punk'')) = Inr ''daft punk''"
  by (simp add: query_q_def or_else_def String_js_def trim_def is_space_def)

subsection \<open>Credentials\<close>

text \<open>C7. For the Movie and the Album adapter, when a required credential is unset (the
  movie key \<^verbatim>\<open>TMDB_API_KEY\<close>; the album token \<^verbatim>\<open>DISCOGS_TOKEN\<close> or the album client string
  \<^verbatim>\<open>DISCOGS_USER_AGENT\<close>), the search ends with the configuration error, status 500 with the
  message of the missing variable, and the handler has made no call of \<^verbatim>\<open>fetch\<close>, whatever
  the query and the transport are.\<close>

theorem search_unconfigured_no_fetch:
  "(unset env ''TMDB_API_KEY''
      \<longrightarrow> search Movie env fetch rawq =
            \<lparr>calls = [],
             response = \<lparr>status = 500, body = ThrownBody (Error ''Missing env var: TMDB_API_KEY'')\<rparr>\<rparr>)
   \<and> (unset env ''DISCOGS_TOKEN''
      \<longrightarrow> search Album env fetch rawq =
            \<lparr>calls = [],
             response = \<lparr>status = 500, body = ThrownBody (Error ''Missing env var: DISCOGS_TOKEN'')\<rparr>\<rparr>)
   \<and> (\<not> unset env ''DISCOGS_TOKEN'' \<and> unset env ''DISCOGS_USER_AGENT''
      \<longrightarrow> search Album env fetch rawq =
            \<lparr>calls = [],
             response = \<lparr>status = 500,
                         body = ThrownBody (Error ''Missing env var: DISCOGS_USER_AGENT'')\<rparr>\<rparr>)"
  by (simp add: search_def search_movies_def search_albums_def requireEnv_def caught_def)

theorem search_unconfigured_no_fetch_witness:
  "unset no_env ''TMDB_API_KEY'' \<and> unset no_env ''DISCOGS_TOKEN''
   \<and> \<not> unset (full_env(''DISCOGS_USER_AGENT'' := None)) ''DISCOGS_TOKEN''
   \<and> unset (full_env(''DISCOGS_USER_AGENT'' := None)) ''DISCOGS_USER_AGENT''
   \<and> calls (search Movie no_env (upstream 200 (Json JNull)) (Some (JStr ''heat''))) = []
   \<and> status (response (search Movie no_env (upstream 200 (Json JNull)) (Some (JStr ''heat'')))) = 500
   \<and> calls (search Album no_env (upstream 200 (Json JNull)) (Some (JStr ''heat''))) = []
   \<and> status (response (search Album no_env (upstream 200 (Json JNull)) (Some (JStr ''heat'')))) = 500
   \<and> search Album (full_env(''DISCOGS_USER_AGENT'' := None)) (upstream 200 (Json JNull))
         (Some (JStr ''heat'')) =
       \<lparr>calls = [],
        response = \<lparr>status = 500,
                    body = ThrownBody (Error ''Missing env var: DISCOGS_USER_AGENT'')\<rparr>\<rparr>"
  using search_unconfigured_no_fetch [of no_env "upstream 200 (Json JNull)" "Some (JStr ''heat'')"]
    search_unconfigured_no_fetch
      [of "full_env(''DISCOGS_USER_AGENT'' := None)" "upstream 200 (Json JNull)" "Some (JStr ''heat'')"]
  by (simp add: unset_no_env) (simp add: unset_def full_env_def)

subsection \<open>The empty query\<close>

text \<open>C4, as the code has it. For every query that is empty after trimming: the Book
  handler, the Movie handler when its credential is set, and the Album handler when both
  of its credentials are set, answer 400 with "Missing query param q" and make no call of
  \<^verbatim>\<open>fetch\<close>. The credential check comes before the query check: when a required credential
  is unset, the Movie and the Album handler answer with the configuration error, status
  500, also for an empty query, again without a call of \<^verbatim>\<open>fetch\<close>.\<close>

theorem search_empty_query:
  assumes "query_q rawq = Inr []"
  shows "search Book env fetch rawq =
           \<lparr>calls = [], response = \<lparr>status = 400, body = ErrorBody ''Missing query param q''\<rparr>\<rparr>
       \<and> (\<not> unset env ''TMDB_API_KEY''
           \<longrightarrow> search Movie env fetch rawq =
                 \<lparr>calls = [], response = \<lparr>status = 400, body = ErrorBody ''Missing query param q''\<rparr>\<rparr>)
       \<and> (\<not> unset env ''DISCOGS_TOKEN'' \<and> \<not> unset env ''DISCOGS_USER_AGENT''
           \<longrightarrow> search Album env fetch rawq =
                 \<lparr>calls = [], response = \<lparr>status = 400, body = ErrorBody ''Missing query param q''\<rparr>\<rparr>)
       \<and> (unset env ''TMDB_API_KEY''
           \<longrightarrow> calls (search Movie env fetch rawq) = []
               \<and> status (response (search Movie env fetch rawq)) = 500)
       \<and> (unset env ''DISCOGS_TOKEN'' \<or> unset env ''DISCOGS_USER_AGENT''
           \<longrightarrow> calls (search Album env fetch rawq) = []
               \<and> status (response (search Album env fetch rawq)) = 500)"
  using assms
  by (simp add: search_def search_movies_def search_books_def search_albums_def requireEnv_def
      caught_def missing_q_def)

text \<open>The claim as written fails for the Movie handler at a blank query and no credential:
  the answer is the configuration error, not the validation error.\<close>

theorem search_empty_query_counterexample:
  "query_q (Some (JStr ''  '')) = Inr []
   \<and> search Movie no_env (upstream 200 (Json JNull)) (Some (JStr ''  '')) =
       \<lparr>calls = [],
        response = \<lparr>status = 500, body = ThrownBody (Error ''Missing env var: TMDB_API_KEY'')\<rparr>\<rparr>"
  by (simp add: query_q_blank search_def search_movies_def requireEnv_unset unset_no_env caught_def)

theorem search_empty_query_witness:
  "query_q (Some (JStr ''  '')) = Inr []
   \<and> search Book no_env (upstream 200 (Json JNull)) (Some (JStr ''  '')) =
       \<lparr>calls = [], response = \<lparr>status = 400, body = ErrorBody ''Missing query param q''\<rparr>\<rparr>
   \<and> search Movie full_env (upstream 200 (Json JNull)) (Some (JStr ''  '')) =
       \<lparr>calls = [], response = \<lparr>status = 400, body = ErrorBody ''Missing query param q''\<rparr>\<rparr>
   \<and> search Album full_env (upstream 200 (Json JNull)) (Some (JStr ''  '')) =
       \<lparr>calls = [], response = \<lparr>status = 400, body = ErrorBody ''Missing query param q''\<rparr>\<rparr>
   \<and> status (response (search Album no_env (upstream 200 (Json JNull)) (Some (JStr ''  '')))) = 500"
  using search_empty_query [of "Some (JStr ''  '')" no_env "upstream 200 (Json JNull)"]
    search_empty_query [of "Some (JStr ''  '')" full_env "upstream 200 (Json JNull)"]
  by (simp add: query_q_blank unset_no_env unset_full_env)

subsection \<open>Upstream failures\<close>

text \<open>C2, as the code has it. For the Album adapter, with both credentials set and a query
  that is not empty, every upstream answer whose status is not a success (outside
  200..299) is passed on as a failure: the response has the upstream status itself (not
  500) and carries the message "Discogs request failed", the upstream status code and the
  upstream body, parsed or raw. It is never a 200 response, and the handler has called
  \<^verbatim>\<open>fetch\<close> once.\<close>

theorem search_albums_upstream_failure:
  assumes "\<not> unset env ''DISCOGS_TOKEN''" and "\<not> unset env ''DISCOGS_USER_AGENT''"
    and "query_q rawq = Inr q" and "q \<noteq> []"
    and "fetch (albums_request env q) = Responded st txt"
    and "\<not> ok st"
  shows "search Album env fetch rawq =
           \<lparr>calls = [albums_request env q],
            response = \<lparr>status = st, body = DiscogsFailed st (parse_or_raw txt)\<rparr>\<rparr>
       \<and> status (response (search Album env fetch rawq)) \<noteq> 200"
proof -
  from assms(6) have "st \<noteq> 200" by (auto simp: ok_def)
  with assms show ?thesis
    by (simp add: search_def search_albums_def requireEnv_def Let_def)
qed

text \<open>The claim as written fails at an upstream 404: the Album handler answers 404, not
  500.\<close>

theorem search_albums_upstream_failure_counterexample:
  "\<not> ok 404
   \<and> response (search Album full_env (upstream 404 (Json (JObj [(''message'', JStr ''Not found'')])))
        (Some (JStr ''daft punk''))) =
       \<lparr>status = 404, body = DiscogsFailed 404 (JObj [(''message'', JStr ''Not found'')])\<rparr>"
  by (simp add: search_def search_albums_def requireEnv_set unset_full_env query_q_daft Let_def
      ok_def upstream_def)

theorem search_albums_upstream_failure_witness:
  "\<not> unset full_env ''DISCOGS_TOKEN'' \<and> \<not> unset full_env ''DISCOGS_USER_AGENT''
   \<and> query_q (Some (JStr ''daft punk'')) = Inr ''daft punk'' \<and> \<not> ok 503
   \<and> search Album full_env (upstream 503 (NotJson ''<html>Service Unavailable</html>''))
        (Some (JStr ''daft punk'')) =
       \<lparr>calls = [albums_request full_env ''daft punk''],
        response = \<lparr>status = 503,
                    body = DiscogsFailed 503 (JObj [(''raw'', JStr ''<html>Service Unavailable</html>'')])\<rparr>\<rparr>"
  using search_albums_upstream_failure
    [of full_env "Some (JStr ''daft punk'')" "''daft punk''"
        "upstream 503 (NotJson ''<html>Service Unavailable</html>'')"
        503 "NotJson ''<html>Service Unavailable</html>''"]
  by (simp add: unset_full_env query_q_daft ok_def upstream_def)

text \<open>The Movie and the Book handler never read the status of the upstream answer: what
  they send depends on its body alone. An upstream 401 with a JSON body comes out of the
  Movie handler as a 200 with no items.\<close>

lemma search_movies_ignores_status:
  "search_movies env (upstream st txt) rawq = search_movies env (upstream 200 txt) rawq"
  by (simp add: search_movies_def upstream_def Let_def cong: if_cong sum.case_cong)

lemma search_books_ignores_status:
  "search_books env (upstream st txt) rawq = search_books env (upstream 200 txt) rawq"
  by (simp add: search_books_def upstream_def Let_def cong: if_cong sum.case_cong)

lemma query_q_heat: "query_q (Some (JStr ''heat'')) = Inr ''heat''"
  by (simp add: query_q_def or_else_def String_js_def trim_def is_space_def)

lemma search_movies_upstream_401:
  "response (search_movies full_env
       (upstream 401 (Json (JObj [(''status_message'', JStr ''Invalid API key'')])))
       (Some (JStr ''heat''))) =
     \<lparr>status = 200, body = ItemsBody []\<rparr>"
  by (simp add: search_movies_def requireEnv_set unset_full_env query_q_heat upstream_def
      first20_map_def or_else_def)

subsection \<open>Titles\<close>

lemma movie_item_title:
  "movie_item m = Inr it \<Longrightarrow> map_of it ''title'' = Some (field (Some m) ''title'')"
  by (auto simp: movie_item_def split: sum.splits if_splits)

lemma book_item_title:
  "book_item b = Inr it \<Longrightarrow>
   \<not> truthy (field (or_else (field (Some b) ''volumeInfo'') (Some (JObj []))) ''title'') \<Longrightarrow>
   map_of it ''title'' = Some (Some (JStr ''Untitled''))"
  by (auto simp: book_item_def get_prop_field or_else_def Let_def split: sum.splits if_splits)

lemma album_item_title:
  "album_item a = Inr it \<Longrightarrow>
   \<not> truthy (field (Some a) ''title'') \<Longrightarrow>
   map_of it ''title'' = Some (Some (JStr ''Untitled''))"
  by (auto simp: album_item_def or_else_def split: sum.splits if_splits)

lemma query_q_matrix: "query_q (Some (JStr ''matrix'')) = Inr ''matrix''"
  by (simp add: query_q_def or_else_def String_js_def trim_def is_space_def)

text \<open>C3. An upstream record without a title is to become an item titled "Untitled". The
  Book and the Album mapping fall back to that string (\<open>book_item_title\<close>,
  \<open>album_item_title\<close>); the Movie mapping copies \<^verbatim>\<open>m.title\<close> as it is
  (\<open>movie_item_title\<close>). Here the Movie handler runs on an upstream answer with one record
  that has an id and no title: the item it sends has an undefined title.\<close>

theorem search_movies_record_without_title:
  "search Movie full_env
       (upstream 200 (Json (JObj [(''results'', JArr [JObj [(''id'', JNum ''603'')]])])))
       (Some (JStr ''matrix'')) =
     \<lparr>calls = [movies_request full_env ''matrix''],
      response =
        \<lparr>status = 200,
         body = ItemsBody
           [[(''id'', Some (JNum ''603'')),
             (''type'', Some (JStr ''movie'')),
             (''title'', None),
             (''subtitle'', Some (JStr [])),
             (''image'', Some (JStr [])),
             (''raw'', Some (JObj [(''id'', JNum ''603'')]))]]\<rparr>\<rparr>"
  by (simp add: search_def search_movies_def requireEnv_set unset_full_env query_q_matrix
      upstream_def first20_map_def or_else_def movie_item_def field_def)

subsection \<open>Routing\<close>

lemma lower_search_path:
  "map lower (search_path c) = ''/api/search/'' @ map lower c"
  by (simp add: search_path_def lower_def)

lemma lower_not_slash: "lower c = CHR ''/'' \<Longrightarrow> c = CHR ''/''"
  by (simp add: lower_def split: if_splits)

lemma slash_not_alnum: "CHR ''/'' \<notin> set alnum"
  by (simp add: alnum_def)

lemma plain_no_slash: "plain c \<Longrightarrow> CHR ''/'' \<notin> set (map lower c)"
proof
  assume p: "plain c" and "CHR ''/'' \<in> set (map lower c)"
  then obtain x where x: "x \<in> set c" and "lower x = CHR ''/''" by auto
  then have e: "x = CHR ''/''" by (simp add: lower_not_slash)
  from p x have "x \<in> set alnum" unfolding plain_def list_all_iff by blast
  with e slash_not_alnum show False by simp
qed

lemma plain_not_route_slash:
  assumes "plain c"
  shows "map lower c \<noteq> ''movies/''" "map lower c \<noteq> ''books/''" "map lower c \<noteq> ''albums/''"
proof -
  have "CHR ''/'' \<in> set ''movies/''" "CHR ''/'' \<in> set ''books/''" "CHR ''/'' \<in> set ''albums/''"
    by simp_all
  with plain_no_slash [OF assms]
  show "map lower c \<noteq> ''movies/''" "map lower c \<noteq> ''books/''" "map lower c \<noteq> ''albums/''"
    by metis+
qed

text \<open>C1, as the code has it. A search request for a category of letters and digits is
  handled as an album search exactly when the category is \<open>albums\<close> (in any case of
  letters), as a movie search when it is \<open>movies\<close> and as a book search when it is
  \<open>books\<close>. For every other category no search route takes the request: it reaches no
  adapter, the Album adapter included.\<close>

theorem handle_by_category:
  assumes "plain category"
  shows "handle env fetch category rawq =
     (if map lower category = ''movies'' then Some (search Movie env fetch rawq)
      else if map lower category = ''books'' then Some (search Book env fetch rawq)
      else if map lower category = ''albums'' then Some (search Album env fetch rawq)
      else None)"
  using plain_not_route_slash [OF assms]
  by (simp add: handle_def search_route_def route_matches_def lower_search_path)

text \<open>The claim as written fails at the category \<open>podcasts\<close>: no route takes the request.
  The default to \<open>album\<close> is that of \<^verbatim>\<open>mapCategoryToFavType\<close>, which names a favorites type and
  which nothing calls.\<close>

theorem handle_by_category_counterexample:
  "''podcasts'' \<notin> {''movies'', ''books'', ''albums''}
   \<and> handle full_env (upstream 200 (Json JNull)) ''podcasts'' (Some (JStr ''daft punk'')) = None
   \<and> mapCategoryToFavType ''podcasts'' = ''album''"
  by (simp add: handle_def search_route_def route_matches_def lower_search_path
      mapCategoryToFavType_def lower_def)

theorem handle_by_category_witness:
  "plain ''podcasts'' \<and> plain ''Albums''
   \<and> handle no_env (upstream 200 (Json JNull)) ''podcasts'' None = None
   \<and> handle no_env (upstream 200 (Json JNull)) ''Albums'' None
       = Some (search Album no_env (upstream 200 (Json JNull)) None)"
  using handle_by_category [of "''podcasts''" no_env "upstream 200 (Json JNull)" None]
    handle_by_category [of "''Albums''" no_env "upstream 200 (Json JNull)" None]
  by (simp add: plain_def alnum_def lower_def)

end
